theory Spec2Isabelle
  imports Complex_Main "HOL-Library.Monad_Syntax"
begin

section \<open>Scalars, vectors and tensors\<close>

text \<open>
  \<^verbatim>\<open>Scalar\<close> is modelled by the real numbers: rounding is not represented. The two
  scalar operations of the code that can signal an IEEE exception (a division and \<^verbatim>\<open>pow\<close>)
  return \<open>None\<close> when they do.

  \<^verbatim>\<open>Dune::FieldVector<Scalar, dim>\<close> is a map from the component index to the component;
  only the components below \<open>dim\<close> belong to the vector. \<^verbatim>\<open>Dune::FieldMatrix\<close> is a map
  from row and column. Arrays indexed by phase or by vertex are maps from the index.
\<close>

type_synonym Scalar = real
type_synonym Vector = "nat \<Rightarrow> Scalar"
type_synonym Tensor = "nat \<Rightarrow> nat \<Rightarrow> Scalar"

text \<open>\<^verbatim>\<open>Vector v(c)\<close> and \<^verbatim>\<open>v = Scalar(c)\<close>: every component is \<open>c\<close>.\<close>

definition vconst :: "Scalar \<Rightarrow> Vector" where
  "vconst c = (\<lambda>i. c)"

text \<open>\<^verbatim>\<open>v *= s\<close>\<close>

definition vscale :: "Vector \<Rightarrow> Scalar \<Rightarrow> Vector" where
  "vscale v s = (\<lambda>i. v i * s)"

text \<open>\<^verbatim>\<open>a += b\<close> and \<^verbatim>\<open>a -= b\<close>\<close>

definition vadd :: "Vector \<Rightarrow> Vector \<Rightarrow> Vector" where
  "vadd a b = (\<lambda>i. a i + b i)"

definition vsub :: "Vector \<Rightarrow> Vector \<Rightarrow> Vector" where
  "vsub a b = (\<lambda>i. a i - b i)"

text \<open>\<^verbatim>\<open>a * b\<close> on two vectors of \<open>n\<close> components: the scalar product.\<close>

definition vdot :: "nat \<Rightarrow> Vector \<Rightarrow> Vector \<Rightarrow> Scalar" where
  "vdot n a b = (\<Sum>i<n. a i * b i)"

text \<open>\<^verbatim>\<open>Tensor K(c)\<close>: every entry is \<open>c\<close>.\<close>

definition tconst :: "Scalar \<Rightarrow> Tensor" where
  "tconst c = (\<lambda>i j. c)"

text \<open>\<^verbatim>\<open>K[i][j] = c\<close>\<close>

definition tset :: "Tensor \<Rightarrow> nat \<Rightarrow> nat \<Rightarrow> Scalar \<Rightarrow> Tensor" where
  "tset K i j c = K(i := (K i)(j := c))"

text \<open>\<^verbatim>\<open>K.mv(x, y)\<close> on an \<open>n\<close> by \<open>n\<close> matrix: \<open>y = K x\<close>.\<close>

definition mv :: "nat \<Rightarrow> Tensor \<Rightarrow> Vector \<Rightarrow> Vector" where
  "mv n K x = (\<lambda>i. \<Sum>j<n. K i j * x j)"

text \<open>
  \<^verbatim>\<open>a / b\<close> on scalars: \<open>None\<close> is the division-by-zero exception.
\<close>

definition fdiv :: "Scalar \<Rightarrow> Scalar \<Rightarrow> Scalar option" where
  "fdiv a b = (if b = 0 then None else Some (a / b))"

text \<open>
  \<^verbatim>\<open>pow(x, y)\<close> of the C library: a negative base with a non-integer exponent is a domain
  error, a zero base with a negative exponent a pole error (both \<open>None\<close>); \<open>pow(x, 0)\<close> is 1.
\<close>

definition pow :: "Scalar \<Rightarrow> Scalar \<Rightarrow> Scalar option" where
  "pow x y =
     (if y = 0 then Some 1
      else if x < 0 then (if of_int \<lfloor>y\<rfloor> = y then Some (x powi \<lfloor>y\<rfloor>) else None)
      else if x = 0 \<and> y < 0 then None
      else Some (x powr y))"

section \<open>The collaborators\<close>

text \<open>
  The volume variables, the element geometry and the problem are classes of the
  repository that the flux classes only read through accessors; each is a record of
  what its accessors return.
\<close>

record FluidState =
  massFraction :: "nat \<Rightarrow> nat \<Rightarrow> Scalar"
  moleFraction :: "nat \<Rightarrow> nat \<Rightarrow> Scalar"

record VolumeVariables =
  pressure :: "nat \<Rightarrow> Scalar"
  density :: "nat \<Rightarrow> Scalar"
  molarDensity :: "nat \<Rightarrow> Scalar"
  saturation :: "nat \<Rightarrow> Scalar"
  porosity :: Scalar
  diffCoeff :: "nat \<Rightarrow> Scalar"
  fluidState :: FluidState
  temperature :: Scalar

type_synonym ElementVolumeVariables = "nat \<Rightarrow> VolumeVariables"

record SubControlVolumeFace =
  grad :: "nat \<Rightarrow> Vector"
  normal :: Vector

record BoundaryFace =
  grad :: "nat \<Rightarrow> Vector"
  shapeValue :: "nat \<Rightarrow> Scalar"
  normal :: Vector

record FVElementGeometry =
  numVertices :: nat
  subContVolFace :: "nat \<Rightarrow> SubControlVolumeFace"
  boundaryFace :: "nat \<Rightarrow> BoundaryFace"

text \<open>
  \<^verbatim>\<open>matrixHeatFlux\<close> writes its first argument, a reference: the model passes the
  vector's value at the call and returns its value after it. The flux variables it is
  given are those of the parent class, of type \<open>'fv\<close>.
\<close>

record ('elem, 'fv) SpatialParameters =
  intrinsicPermeability :: "'elem \<Rightarrow> FVElementGeometry \<Rightarrow> nat \<Rightarrow> Scalar"
  matrixHeatFlux :: "Vector \<Rightarrow> 'fv \<Rightarrow> ElementVolumeVariables \<Rightarrow> Vector \<Rightarrow> 'elem
                       \<Rightarrow> FVElementGeometry \<Rightarrow> nat \<Rightarrow> Vector"

record ('elem, 'fv) Problem =
  gravity :: Vector
  spatialParameters :: "('elem, 'fv) SpatialParameters"

text \<open>
  The properties and parameters the classes read from their \<^verbatim>\<open>TypeTag\<close>: the number of
  phases, the indices of the liquid and gas phase and component, the dimensions of the
  grid and of the world, and whether gravity is enabled.
\<close>

record TypeTag =
  NumPhases :: nat
  lPhaseIdx :: nat
  gPhaseIdx :: nat
  lCompIdx :: nat
  gCompIdx :: nat
  dim :: nat
  dimWorld :: nat
  EnableGravity :: bool

section \<open>2p2cboundaryvariables.hh\<close>

text \<open>
  The members of \<^verbatim>\<open>TwoPTwoCBoundaryVariables\<close>, each named as in the class without
  its trailing underscore (a record field cannot end in one). \<open>boundaryFace\<close> is a
  pointer into the constant geometry: the record holds the face it points to.
  \<open>porousDiffCoeff\<close> holds \<open>None\<close> where its computation signalled an IEEE exception.
\<close>

record TwoPTwoCBoundaryVariables =
  fvElemGeom :: FVElementGeometry
  boundaryFace :: BoundaryFace
  potentialGrad :: "nat \<Rightarrow> Vector"
  concentrationGrad :: "nat \<Rightarrow> Vector"
  molarConcGrad :: "nat \<Rightarrow> Vector"
  pressureAtIP :: "nat \<Rightarrow> Scalar"
  densityAtIP :: "nat \<Rightarrow> Scalar"
  molarDensityAtIP :: "nat \<Rightarrow> Scalar"
  KmvpNormal :: "nat \<Rightarrow> Scalar"
  porousDiffCoeff :: "nat \<Rightarrow> Scalar option"
  scvIdx :: nat

text \<open>The body of the constructor's loop over the phases: every array entry is zeroed.\<close>

definition initPhase :: "nat \<Rightarrow> TwoPTwoCBoundaryVariables \<Rightarrow> TwoPTwoCBoundaryVariables" where
  "initPhase phaseIdx s =
     s\<lparr>densityAtIP := (densityAtIP s)(phaseIdx := 0),
       pressureAtIP := (pressureAtIP s)(phaseIdx := 0),
       molarDensityAtIP := (molarDensityAtIP s)(phaseIdx := 0),
       potentialGrad := (potentialGrad s)(phaseIdx := vconst 0),
       concentrationGrad := (concentrationGrad s)(phaseIdx := vconst 0),
       molarConcGrad := (molarConcGrad s)(phaseIdx := vconst 0),
       KmvpNormal := (KmvpNormal s)(phaseIdx := 0),
       porousDiffCoeff := (porousDiffCoeff s)(phaseIdx := Some 0)\<rparr>"

text \<open>
  \<^verbatim>\<open>calculateBoundaryValues_\<close>, first loop, the inner loop "compute sum of pressure
  gradients for each phase". The state is the object and the local \<open>tmp\<close>.
\<close>

definition pressureGradStep ::
  "Vector \<Rightarrow> VolumeVariables \<Rightarrow> nat \<Rightarrow> TwoPTwoCBoundaryVariables \<times> Vector
     \<Rightarrow> TwoPTwoCBoundaryVariables \<times> Vector" where
  "pressureGradStep feGrad vv phaseIdx st =
     (let s = fst st;
          tmp = feGrad;
          tmp = vscale tmp (pressure vv phaseIdx);
          s = s\<lparr>potentialGrad := (potentialGrad s)(phaseIdx := vadd (potentialGrad s phaseIdx) tmp)\<rparr>
      in (s, tmp))"

text \<open>The last inner loop of the first loop: the values at the integration point.\<close>

definition atIPStep ::
  "nat \<Rightarrow> VolumeVariables \<Rightarrow> nat \<Rightarrow> TwoPTwoCBoundaryVariables \<Rightarrow> TwoPTwoCBoundaryVariables" where
  "atIPStep idx vv phaseIdx s =
     (let s = s\<lparr>pressureAtIP := (pressureAtIP s)(phaseIdx :=
                  pressureAtIP s phaseIdx + pressure vv phaseIdx * shapeValue (boundaryFace s) idx)\<rparr>;
          s = s\<lparr>densityAtIP := (densityAtIP s)(phaseIdx :=
                  densityAtIP s phaseIdx + density vv phaseIdx * shapeValue (boundaryFace s) idx)\<rparr>;
          s = s\<lparr>molarDensityAtIP := (molarDensityAtIP s)(phaseIdx :=
                  molarDensityAtIP s phaseIdx + molarDensity vv phaseIdx * shapeValue (boundaryFace s) idx)\<rparr>
      in s)"

text \<open>The body of the first loop, over the vertices of the element.\<close>

definition vertexStep ::
  "TypeTag \<Rightarrow> ElementVolumeVariables \<Rightarrow> nat \<Rightarrow> TwoPTwoCBoundaryVariables \<times> Vector
     \<Rightarrow> TwoPTwoCBoundaryVariables \<times> Vector" where
  "vertexStep tt elemDat idx st =
     (let feGrad = BoundaryFace.grad (boundaryFace (fst st)) idx;
          st = fold (pressureGradStep feGrad (elemDat idx)) [0..<NumPhases tt] st;
          s = fst st;
          tmp = feGrad;
          tmp = vscale tmp (massFraction (fluidState (elemDat idx)) (lPhaseIdx tt) (gCompIdx tt));
          s = s\<lparr>concentrationGrad := (concentrationGrad s)(lPhaseIdx tt :=
                  vadd (concentrationGrad s (lPhaseIdx tt)) tmp)\<rparr>;
          tmp = feGrad;
          tmp = vscale tmp (moleFraction (fluidState (elemDat idx)) (lPhaseIdx tt) (gCompIdx tt));
          s = s\<lparr>molarConcGrad := (molarConcGrad s)(lPhaseIdx tt :=
                  vadd (molarConcGrad s (lPhaseIdx tt)) tmp)\<rparr>;
          tmp = feGrad;
          tmp = vscale tmp (massFraction (fluidState (elemDat idx)) (gPhaseIdx tt) (lCompIdx tt));
          s = s\<lparr>concentrationGrad := (concentrationGrad s)(gPhaseIdx tt :=
                  vadd (concentrationGrad s (gPhaseIdx tt)) tmp)\<rparr>;
          tmp = feGrad;
          tmp = vscale tmp (moleFraction (fluidState (elemDat idx)) (gPhaseIdx tt) (lCompIdx tt));
          s = s\<lparr>molarConcGrad := (molarConcGrad s)(gPhaseIdx tt :=
                  vadd (molarConcGrad s (gPhaseIdx tt)) tmp)\<rparr>;
          s = fold (atIPStep idx (elemDat idx)) [0..<NumPhases tt] s
      in (s, tmp))"

text \<open>
  The permeability tensor of the second loop: \<^verbatim>\<open>Tensor K(0); K[0][0] = K[1][1] = k;\<close>.
  The entry \<open>(1, 1)\<close> exists only on a grid of dimension two or more.
\<close>

definition permeabilityTensor :: "Scalar \<Rightarrow> Tensor" where
  "permeabilityTensor k =
     (let K = tconst 0;
          K = tset K 1 1 k;
          K = tset K 0 0 k
      in K)"

text \<open>
  The body of the second loop, over the phases. \<open>tmp\<close> is assigned only when gravity is
  enabled, and subtracted from the potential gradient in both cases.
\<close>

definition phaseStep ::
  "TypeTag \<Rightarrow> ('elem, 'fv) Problem \<Rightarrow> 'elem \<Rightarrow> ElementVolumeVariables \<Rightarrow> nat
     \<Rightarrow> TwoPTwoCBoundaryVariables \<times> Vector \<Rightarrow> TwoPTwoCBoundaryVariables \<times> Vector" where
  "phaseStep tt problem element elemDat phaseIdx st =
     (let s = fst st;
          tmp = snd st;
          tmp = (if EnableGravity tt
                 then (let tmp = gravity problem in vscale tmp (densityAtIP s phaseIdx))
                 else tmp);
          s = s\<lparr>potentialGrad := (potentialGrad s)(phaseIdx := vsub (potentialGrad s phaseIdx) tmp)\<rparr>;
          k = intrinsicPermeability (spatialParameters problem) element (fvElemGeom s) (scvIdx s);
          K = permeabilityTensor k;
          Kmvp = mv (dim tt) K (potentialGrad s phaseIdx);
          s = s\<lparr>KmvpNormal := (KmvpNormal s)(phaseIdx :=
                  - (vdot (dim tt) Kmvp (BoundaryFace.normal (boundaryFace s))))\<rparr>;
          vertDat = elemDat (scvIdx s);
          s = (if saturation vertDat phaseIdx \<le> 0
               then s\<lparr>porousDiffCoeff := (porousDiffCoeff s)(phaseIdx := Some 0)\<rparr>
               else (let tau = do {
                           q \<leftarrow> fdiv 1 (porosity vertDat * porosity vertDat);
                           p \<leftarrow> pow (porosity vertDat * saturation vertDat phaseIdx) (7 / 3);
                           Some (q * p) }
                     in s\<lparr>porousDiffCoeff := (porousDiffCoeff s)(phaseIdx :=
                            map_option (\<lambda>tau. porosity vertDat * saturation vertDat phaseIdx * tau
                                                 * diffCoeff vertDat phaseIdx) tau)\<rparr>))
      in (s, tmp))"

text \<open>\<^verbatim>\<open>calculateBoundaryValues_\<close>: the local \<open>tmp\<close>, the first loop and the second.\<close>

definition calculateBoundaryValues ::
  "TypeTag \<Rightarrow> ('elem, 'fv) Problem \<Rightarrow> 'elem \<Rightarrow> ElementVolumeVariables
     \<Rightarrow> TwoPTwoCBoundaryVariables \<Rightarrow> TwoPTwoCBoundaryVariables" where
  "calculateBoundaryValues tt problem element elemDat s =
     (let tmp = vconst 0;
          st = fold (vertexStep tt elemDat) [0..<numVertices (fvElemGeom s)] (s, tmp);
          st = fold (phaseStep tt problem element elemDat) [0..<NumPhases tt] st
      in fst st)"

text \<open>
  The constructor. \<open>uninit\<close> is the object's storage before the constructor runs: the
  member initialisers and the first loop overwrite it. \<open>scvIdxArg\<close> is the parameter
  \<^verbatim>\<open>scvIdx\<close>, which initialises the member of that name.
\<close>

definition TwoPTwoCBoundaryVariables_ctor ::
  "TypeTag \<Rightarrow> TwoPTwoCBoundaryVariables \<Rightarrow> ('elem, 'fv) Problem \<Rightarrow> 'elem \<Rightarrow> FVElementGeometry
     \<Rightarrow> nat \<Rightarrow> ElementVolumeVariables \<Rightarrow> nat \<Rightarrow> TwoPTwoCBoundaryVariables" where
  "TwoPTwoCBoundaryVariables_ctor tt uninit problem element elemGeom boundaryFaceIdx elemDat scvIdxArg =
     (let s = uninit\<lparr>fvElemGeom := elemGeom, scvIdx := scvIdxArg\<rparr>;
          s = s\<lparr>boundaryFace := FVElementGeometry.boundaryFace (fvElemGeom s) boundaryFaceIdx\<rparr>;
          s = fold initPhase [0..<NumPhases tt] s
      in calculateBoundaryValues tt problem element elemDat s)"

section \<open>2p2cnifluxvariables.hh\<close>

text \<open>
  \<^verbatim>\<open>TwoPTwoCNIFluxVariables\<close> derives from \<^verbatim>\<open>TwoPTwoCFluxVariables\<close>: the object is the
  parent's sub-object, of type \<open>'fv\<close>, and the one member the class adds.
\<close>

record 'fv TwoPTwoCNIFluxVariables =
  ParentType :: 'fv
  normalMatrixHeatFlux :: Scalar

text \<open>
  The body of the constructor's loop: the state is the two locals \<open>temperatureGrad\<close>
  and \<open>tmp\<close>.
\<close>

definition temperatureGradStep ::
  "FVElementGeometry \<Rightarrow> nat \<Rightarrow> ElementVolumeVariables \<Rightarrow> nat \<Rightarrow> Vector \<times> Vector \<Rightarrow> Vector \<times> Vector" where
  "temperatureGradStep elemGeom scvfIdx elemDat vertIdx st =
     (let temperatureGrad = fst st;
          tmp = SubControlVolumeFace.grad (subContVolFace elemGeom scvfIdx) vertIdx;
          tmp = vscale tmp (temperature (elemDat vertIdx));
          temperatureGrad = vadd temperatureGrad tmp
      in (temperatureGrad, tmp))"

text \<open>The locals and the loop: the result is \<open>temperatureGrad\<close> and \<open>tmp\<close> after it.\<close>

definition temperatureGradLoop ::
  "FVElementGeometry \<Rightarrow> nat \<Rightarrow> ElementVolumeVariables \<Rightarrow> Vector \<times> Vector" where
  "temperatureGradLoop elemGeom scvfIdx elemDat =
     (let temperatureGrad = vconst 0;
          tmp = vconst 0
      in fold (temperatureGradStep elemGeom scvfIdx elemDat) [0..<numVertices elemGeom]
           (temperatureGrad, tmp))"

text \<open>
  The constructor. \<open>parentCtor\<close> is the constructor of the parent class, which runs
  first on the same arguments; \<open>uninit\<close> is the storage of the added member before the
  body assigns it.
\<close>

definition TwoPTwoCNIFluxVariables_ctor ::
  "TypeTag \<Rightarrow> (('elem, 'fv) Problem \<Rightarrow> 'elem \<Rightarrow> FVElementGeometry \<Rightarrow> nat \<Rightarrow> ElementVolumeVariables \<Rightarrow> 'fv)
     \<Rightarrow> Scalar \<Rightarrow> ('elem, 'fv) Problem \<Rightarrow> 'elem \<Rightarrow> FVElementGeometry \<Rightarrow> nat
     \<Rightarrow> ElementVolumeVariables \<Rightarrow> 'fv TwoPTwoCNIFluxVariables" where
  "TwoPTwoCNIFluxVariables_ctor tt parentCtor uninit problem element elemGeom scvfIdx elemDat =
     (let this = \<lparr>ParentType = parentCtor problem element elemGeom scvfIdx elemDat,
                  normalMatrixHeatFlux = uninit\<rparr>;
          st = temperatureGradLoop elemGeom scvfIdx elemDat;
          temperatureGrad = fst st;
          tmp = snd st;
          tmp = matrixHeatFlux (spatialParameters problem) tmp (ParentType this) elemDat
                  temperatureGrad element elemGeom scvfIdx;
          this = this\<lparr>normalMatrixHeatFlux :=
                   vdot (dimWorld tt) tmp (SubControlVolumeFace.normal (subContVolFace elemGeom scvfIdx))\<rparr>
      in this)"

section \<open>Predicates of the properties\<close>

text \<open>A per-vertex quantity is uniform when each of the \<open>n\<close> vertices holds the same value.\<close>

definition uniformOn :: "nat \<Rightarrow> (nat \<Rightarrow> 'a) \<Rightarrow> bool" where
  "uniformOn n f = (\<forall>idx<n. f idx = f 0)"

text \<open>
  The shape-function gradients \<open>g\<close> of the \<open>n\<close> vertices sum to the zero vector of \<open>d\<close>
  components.
\<close>

definition gradsSumToZero :: "nat \<Rightarrow> nat \<Rightarrow> (nat \<Rightarrow> Vector) \<Rightarrow> bool" where
  "gradsSumToZero d n g = (\<forall>i<d. (\<Sum>idx<n. g idx i) = 0)"

section \<open>Example inputs\<close>

text \<open>
  A two-vertex element along the first axis, with shape-function gradients
  \<open>(-1, 0, 0)\<close> and \<open>(1, 0, 0)\<close> and shape values one half; two phases, liquid 0 and gas 1;
  volume variables with a given pressure and porosity, the gas phase absent.
\<close>

definition vec3 :: "Scalar \<Rightarrow> Scalar \<Rightarrow> Scalar \<Rightarrow> Vector" where
  "vec3 a b c = (\<lambda>i. if i = 0 then a else if i = 1 then b else if i = 2 then c else 0)"

definition exTypeTag :: "nat \<Rightarrow> bool \<Rightarrow> TypeTag" where
  "exTypeTag d g =
     \<lparr>NumPhases = 2, lPhaseIdx = 0, gPhaseIdx = 1, lCompIdx = 0, gCompIdx = 1,
      dim = d, dimWorld = d, EnableGravity = g\<rparr>"

definition exVolVars :: "Scalar \<Rightarrow> Scalar \<Rightarrow> VolumeVariables" where
  "exVolVars p phi =
     \<lparr>pressure = (\<lambda>ph. p), density = (\<lambda>ph. 1), molarDensity = (\<lambda>ph. 1),
      saturation = (\<lambda>ph. if ph = 0 then 1 else 0), porosity = phi, diffCoeff = (\<lambda>ph. 2),
      fluidState = \<lparr>massFraction = (\<lambda>ph c. 1 / 4), moleFraction = (\<lambda>ph c. 1 / 2)\<rparr>,
      temperature = 300\<rparr>"

definition exElemDat :: ElementVolumeVariables where
  "exElemDat = (\<lambda>idx. if idx = 0 then exVolVars 2 1 else exVolVars 1 1)"

definition exUniformDat :: ElementVolumeVariables where
  "exUniformDat = (\<lambda>idx. exVolVars 1 1)"

definition exGrad :: "nat \<Rightarrow> Vector" where
  "exGrad = (\<lambda>idx. if idx = 0 then vec3 (- 1) 0 0 else if idx = 1 then vec3 1 0 0 else vec3 0 0 0)"

definition exGeometry :: "Vector \<Rightarrow> FVElementGeometry" where
  "exGeometry n =
     \<lparr>numVertices = 2,
      subContVolFace = (\<lambda>f. \<lparr>SubControlVolumeFace.grad = exGrad, SubControlVolumeFace.normal = n\<rparr>),
      boundaryFace = (\<lambda>f. \<lparr>BoundaryFace.grad = exGrad, shapeValue = (\<lambda>idx. 1 / 2),
                              BoundaryFace.normal = n\<rparr>)\<rparr>"

text \<open>
  A problem with gravity \<open>g\<close>, permeability 3 at sub-control volume 0 and \<open>kOther\<close> at the
  others, and Fourier's law with conductivity 2 as its heat-flux law.
\<close>

definition exProblem :: "Vector \<Rightarrow> Scalar \<Rightarrow> (unit, unit) Problem" where
  "exProblem g kOther =
     \<lparr>gravity = g,
      spatialParameters =
        \<lparr>intrinsicPermeability = (\<lambda>element geom i. if i = 0 then 3 else kOther),
         matrixHeatFlux = (\<lambda>heatFlux fluxDat vDat tempGrad element geom scvfIdx. vscale tempGrad (- 2))\<rparr>\<rparr>"

text \<open>Storage that holds 7 everywhere, and no diffusion coefficient.\<close>

definition exUninit :: TwoPTwoCBoundaryVariables where
  "exUninit =
     \<lparr>fvElemGeom = exGeometry (vconst 7),
      boundaryFace = FVElementGeometry.boundaryFace (exGeometry (vconst 7)) 7,
      potentialGrad = (\<lambda>ph. vconst 7), concentrationGrad = (\<lambda>ph. vconst 7),
      molarConcGrad = (\<lambda>ph. vconst 7), pressureAtIP = (\<lambda>ph. 7), densityAtIP = (\<lambda>ph. 7),
      molarDensityAtIP = (\<lambda>ph. 7), KmvpNormal = (\<lambda>ph. 7), porousDiffCoeff = (\<lambda>ph. None),
      scvIdx = 7\<rparr>"

section \<open>The loops in closed form\<close>

lemma fold_initPhase:
  "fold initPhase [0..<n] s =
     s\<lparr>densityAtIP := (\<lambda>p. if p < n then 0 else densityAtIP s p),
       pressureAtIP := (\<lambda>p. if p < n then 0 else pressureAtIP s p),
       molarDensityAtIP := (\<lambda>p. if p < n then 0 else molarDensityAtIP s p),
       potentialGrad := (\<lambda>p. if p < n then vconst 0 else potentialGrad s p),
       concentrationGrad := (\<lambda>p. if p < n then vconst 0 else concentrationGrad s p),
       molarConcGrad := (\<lambda>p. if p < n then vconst 0 else molarConcGrad s p),
       KmvpNormal := (\<lambda>p. if p < n then 0 else KmvpNormal s p),
       porousDiffCoeff := (\<lambda>p. if p < n then Some 0 else porousDiffCoeff s p)\<rparr>"
proof (induction n)
  case 0
  show ?case by simp
next
  case (Suc n)
  show ?case by (simp add: Suc) (auto simp: initPhase_def fun_eq_iff intro!: TwoPTwoCBoundaryVariables.equality)
qed

lemma fold_pressureGradStep:
  "fold (pressureGradStep g vv) [0..<n] st =
     ((fst st)\<lparr>potentialGrad := (\<lambda>p. if p < n then vadd (potentialGrad (fst st) p) (vscale g (pressure vv p))
                                       else potentialGrad (fst st) p)\<rparr>,
      if n = 0 then snd st else vscale g (pressure vv (n - 1)))"
proof (induction n)
  case 0
  show ?case by simp
next
  case (Suc n)
  show ?case by (simp add: Suc) (auto simp: pressureGradStep_def Let_def fun_eq_iff intro!: TwoPTwoCBoundaryVariables.equality)
qed

lemma fold_atIPStep:
  "fold (atIPStep idx vv) [0..<n] s =
     s\<lparr>pressureAtIP := (\<lambda>p. if p < n then pressureAtIP s p + pressure vv p * shapeValue (boundaryFace s) idx
                              else pressureAtIP s p),
       densityAtIP := (\<lambda>p. if p < n then densityAtIP s p + density vv p * shapeValue (boundaryFace s) idx
                              else densityAtIP s p),
       molarDensityAtIP := (\<lambda>p. if p < n then molarDensityAtIP s p + molarDensity vv p * shapeValue (boundaryFace s) idx
                              else molarDensityAtIP s p)\<rparr>"
proof (induction n)
  case 0
  show ?case by simp
next
  case (Suc n)
  show ?case by (simp add: Suc) (auto simp: atIPStep_def Let_def fun_eq_iff intro!: TwoPTwoCBoundaryVariables.equality)
qed

lemma vertexStep_frame:
  "boundaryFace (fst (vertexStep tt ed idx st)) = boundaryFace (fst st)"
  "fvElemGeom (fst (vertexStep tt ed idx st)) = fvElemGeom (fst st)"
  "scvIdx (fst (vertexStep tt ed idx st)) = scvIdx (fst st)"
  "KmvpNormal (fst (vertexStep tt ed idx st)) = KmvpNormal (fst st)"
  "porousDiffCoeff (fst (vertexStep tt ed idx st)) = porousDiffCoeff (fst st)"
  by (simp_all add: vertexStep_def Let_def fold_pressureGradStep fold_atIPStep)

lemma vertexStep_potentialGrad:
  "potentialGrad (fst (vertexStep tt ed idx st)) p i =
     potentialGrad (fst st) p i +
     (if p < NumPhases tt then BoundaryFace.grad (boundaryFace (fst st)) idx i * pressure (ed idx) p else 0)"
  by (simp add: vertexStep_def Let_def fold_pressureGradStep fold_atIPStep vadd_def vscale_def)

lemma vertexStep_concentrationGrad:
  "concentrationGrad (fst (vertexStep tt ed idx st)) p i =
     concentrationGrad (fst st) p i +
     (if p = lPhaseIdx tt
      then BoundaryFace.grad (boundaryFace (fst st)) idx i
             * massFraction (fluidState (ed idx)) (lPhaseIdx tt) (gCompIdx tt) else 0) +
     (if p = gPhaseIdx tt
      then BoundaryFace.grad (boundaryFace (fst st)) idx i
             * massFraction (fluidState (ed idx)) (gPhaseIdx tt) (lCompIdx tt) else 0)"
  by (simp add: vertexStep_def Let_def fold_pressureGradStep fold_atIPStep vadd_def vscale_def)

lemma vertexStep_molarConcGrad:
  "molarConcGrad (fst (vertexStep tt ed idx st)) p i =
     molarConcGrad (fst st) p i +
     (if p = lPhaseIdx tt
      then BoundaryFace.grad (boundaryFace (fst st)) idx i
             * moleFraction (fluidState (ed idx)) (lPhaseIdx tt) (gCompIdx tt) else 0) +
     (if p = gPhaseIdx tt
      then BoundaryFace.grad (boundaryFace (fst st)) idx i
             * moleFraction (fluidState (ed idx)) (gPhaseIdx tt) (lCompIdx tt) else 0)"
  by (simp add: vertexStep_def Let_def fold_pressureGradStep fold_atIPStep vadd_def vscale_def)

lemma vertexStep_atIP:
  "pressureAtIP (fst (vertexStep tt ed idx st)) p =
     pressureAtIP (fst st) p +
     (if p < NumPhases tt then pressure (ed idx) p * shapeValue (boundaryFace (fst st)) idx else 0)"
  "densityAtIP (fst (vertexStep tt ed idx st)) p =
     densityAtIP (fst st) p +
     (if p < NumPhases tt then density (ed idx) p * shapeValue (boundaryFace (fst st)) idx else 0)"
  "molarDensityAtIP (fst (vertexStep tt ed idx st)) p =
     molarDensityAtIP (fst st) p +
     (if p < NumPhases tt then molarDensity (ed idx) p * shapeValue (boundaryFace (fst st)) idx else 0)"
  by (simp_all add: vertexStep_def Let_def fold_pressureGradStep fold_atIPStep)

lemma vertexStep_tmp:
  "snd (vertexStep tt ed idx st) =
     vscale (BoundaryFace.grad (boundaryFace (fst st)) idx)
       (moleFraction (fluidState (ed idx)) (gPhaseIdx tt) (lCompIdx tt))"
  by (simp add: vertexStep_def Let_def)

lemma fold_vertexStep_frame:
  "boundaryFace (fst (fold (vertexStep tt ed) [0..<n] st)) = boundaryFace (fst st)"
  "fvElemGeom (fst (fold (vertexStep tt ed) [0..<n] st)) = fvElemGeom (fst st)"
  "scvIdx (fst (fold (vertexStep tt ed) [0..<n] st)) = scvIdx (fst st)"
  "KmvpNormal (fst (fold (vertexStep tt ed) [0..<n] st)) = KmvpNormal (fst st)"
  "porousDiffCoeff (fst (fold (vertexStep tt ed) [0..<n] st)) = porousDiffCoeff (fst st)"
  by (induction n; simp add: vertexStep_frame)+

lemma fold_vertexStep_potentialGrad:
  "potentialGrad (fst (fold (vertexStep tt ed) [0..<n] st)) p i =
     potentialGrad (fst st) p i +
     (if p < NumPhases tt
      then (\<Sum>idx<n. BoundaryFace.grad (boundaryFace (fst st)) idx i * pressure (ed idx) p) else 0)"
  by (induction n) (simp_all add: vertexStep_potentialGrad fold_vertexStep_frame)

lemma fold_vertexStep_concentrationGrad:
  "concentrationGrad (fst (fold (vertexStep tt ed) [0..<n] st)) p i =
     concentrationGrad (fst st) p i +
     (if p = lPhaseIdx tt
      then (\<Sum>idx<n. BoundaryFace.grad (boundaryFace (fst st)) idx i
             * massFraction (fluidState (ed idx)) (lPhaseIdx tt) (gCompIdx tt)) else 0) +
     (if p = gPhaseIdx tt
      then (\<Sum>idx<n. BoundaryFace.grad (boundaryFace (fst st)) idx i
             * massFraction (fluidState (ed idx)) (gPhaseIdx tt) (lCompIdx tt)) else 0)"
  by (induction n) (simp_all add: vertexStep_concentrationGrad fold_vertexStep_frame)

lemma fold_vertexStep_molarConcGrad:
  "molarConcGrad (fst (fold (vertexStep tt ed) [0..<n] st)) p i =
     molarConcGrad (fst st) p i +
     (if p = lPhaseIdx tt
      then (\<Sum>idx<n. BoundaryFace.grad (boundaryFace (fst st)) idx i
             * moleFraction (fluidState (ed idx)) (lPhaseIdx tt) (gCompIdx tt)) else 0) +
     (if p = gPhaseIdx tt
      then (\<Sum>idx<n. BoundaryFace.grad (boundaryFace (fst st)) idx i
             * moleFraction (fluidState (ed idx)) (gPhaseIdx tt) (lCompIdx tt)) else 0)"
  by (induction n) (simp_all add: vertexStep_molarConcGrad fold_vertexStep_frame)

lemma fold_vertexStep_atIP:
  "pressureAtIP (fst (fold (vertexStep tt ed) [0..<n] st)) p =
     pressureAtIP (fst st) p +
     (if p < NumPhases tt
      then (\<Sum>idx<n. pressure (ed idx) p * shapeValue (boundaryFace (fst st)) idx) else 0)"
  "densityAtIP (fst (fold (vertexStep tt ed) [0..<n] st)) p =
     densityAtIP (fst st) p +
     (if p < NumPhases tt
      then (\<Sum>idx<n. density (ed idx) p * shapeValue (boundaryFace (fst st)) idx) else 0)"
  "molarDensityAtIP (fst (fold (vertexStep tt ed) [0..<n] st)) p =
     molarDensityAtIP (fst st) p +
     (if p < NumPhases tt
      then (\<Sum>idx<n. molarDensity (ed idx) p * shapeValue (boundaryFace (fst st)) idx) else 0)"
  by (induction n; simp add: vertexStep_atIP fold_vertexStep_frame)+

lemma fold_vertexStep_tmp:
  "snd (fold (vertexStep tt ed) [0..<n] st) =
     (if n = 0 then snd st
      else vscale (BoundaryFace.grad (boundaryFace (fst st)) (n - 1))
             (moleFraction (fluidState (ed (n - 1))) (gPhaseIdx tt) (lCompIdx tt)))"
  by (cases n) (simp_all add: vertexStep_tmp fold_vertexStep_frame)

lemma phaseStep_frame:
  "boundaryFace (fst (phaseStep tt problem element ed ph st)) = boundaryFace (fst st)"
  "fvElemGeom (fst (phaseStep tt problem element ed ph st)) = fvElemGeom (fst st)"
  "scvIdx (fst (phaseStep tt problem element ed ph st)) = scvIdx (fst st)"
  "concentrationGrad (fst (phaseStep tt problem element ed ph st)) = concentrationGrad (fst st)"
  "molarConcGrad (fst (phaseStep tt problem element ed ph st)) = molarConcGrad (fst st)"
  "pressureAtIP (fst (phaseStep tt problem element ed ph st)) = pressureAtIP (fst st)"
  "densityAtIP (fst (phaseStep tt problem element ed ph st)) = densityAtIP (fst st)"
  "molarDensityAtIP (fst (phaseStep tt problem element ed ph st)) = molarDensityAtIP (fst st)"
  by (simp_all add: phaseStep_def Let_def)

lemma phaseStep_tmp:
  "snd (phaseStep tt problem element ed ph st) =
     (if EnableGravity tt then vscale (gravity problem) (densityAtIP (fst st) ph) else snd st)"
  by (simp add: phaseStep_def Let_def)

lemma phaseStep_potentialGrad:
  "potentialGrad (fst (phaseStep tt problem element ed ph st)) =
     (potentialGrad (fst st))(ph := vsub (potentialGrad (fst st) ph)
        (if EnableGravity tt then vscale (gravity problem) (densityAtIP (fst st) ph) else snd st))"
  by (simp add: phaseStep_def Let_def)

lemma phaseStep_KmvpNormal:
  "KmvpNormal (fst (phaseStep tt problem element ed ph st)) =
     (KmvpNormal (fst st))(ph :=
        - vdot (dim tt)
            (mv (dim tt)
               (permeabilityTensor
                  (intrinsicPermeability (spatialParameters problem) element
                     (fvElemGeom (fst st)) (scvIdx (fst st))))
               (potentialGrad (fst (phaseStep tt problem element ed ph st)) ph))
            (BoundaryFace.normal (boundaryFace (fst st))))"
  by (simp add: phaseStep_def Let_def)

lemma phaseStep_porousDiffCoeff:
  "porousDiffCoeff (fst (phaseStep tt problem element ed ph st)) =
     (porousDiffCoeff (fst st))(ph :=
        (if saturation (ed (scvIdx (fst st))) ph \<le> 0 then Some 0
         else map_option
                (\<lambda>tau. porosity (ed (scvIdx (fst st))) * saturation (ed (scvIdx (fst st))) ph * tau
                        * diffCoeff (ed (scvIdx (fst st))) ph)
                (do { q \<leftarrow> fdiv 1 (porosity (ed (scvIdx (fst st))) * porosity (ed (scvIdx (fst st))));
                      pw \<leftarrow> pow (porosity (ed (scvIdx (fst st))) * saturation (ed (scvIdx (fst st))) ph) (7 / 3);
                      Some (q * pw) })))"
  by (simp add: phaseStep_def Let_def)

lemma fold_phaseStep_frame:
  "boundaryFace (fst (fold (phaseStep tt problem element ed) [0..<n] st)) = boundaryFace (fst st)"
  "fvElemGeom (fst (fold (phaseStep tt problem element ed) [0..<n] st)) = fvElemGeom (fst st)"
  "scvIdx (fst (fold (phaseStep tt problem element ed) [0..<n] st)) = scvIdx (fst st)"
  "concentrationGrad (fst (fold (phaseStep tt problem element ed) [0..<n] st)) = concentrationGrad (fst st)"
  "molarConcGrad (fst (fold (phaseStep tt problem element ed) [0..<n] st)) = molarConcGrad (fst st)"
  "pressureAtIP (fst (fold (phaseStep tt problem element ed) [0..<n] st)) = pressureAtIP (fst st)"
  "densityAtIP (fst (fold (phaseStep tt problem element ed) [0..<n] st)) = densityAtIP (fst st)"
  "molarDensityAtIP (fst (fold (phaseStep tt problem element ed) [0..<n] st)) = molarDensityAtIP (fst st)"
  by (induction n; simp add: phaseStep_frame)+

lemma fold_phaseStep_tmp_nogravity:
  "\<not> EnableGravity tt \<Longrightarrow> snd (fold (phaseStep tt problem element ed) [0..<n] st) = snd st"
  by (induction n) (simp_all add: phaseStep_tmp)

lemma fold_phaseStep_potentialGrad:
  "potentialGrad (fst (fold (phaseStep tt problem element ed) [0..<n] st)) p =
     (if p < n
      then vsub (potentialGrad (fst st) p)
             (if EnableGravity tt then vscale (gravity problem) (densityAtIP (fst st) p) else snd st)
      else potentialGrad (fst st) p)"
  by (induction n arbitrary: p)
     (simp_all add: phaseStep_potentialGrad fold_phaseStep_frame fold_phaseStep_tmp_nogravity less_Suc_eq)

lemma fold_phaseStep_KmvpNormal:
  "p < n \<Longrightarrow>
   KmvpNormal (fst (fold (phaseStep tt problem element ed) [0..<n] st)) p =
     - vdot (dim tt)
         (mv (dim tt)
            (permeabilityTensor
               (intrinsicPermeability (spatialParameters problem) element
                  (fvElemGeom (fst st)) (scvIdx (fst st))))
            (potentialGrad (fst (fold (phaseStep tt problem element ed) [0..<n] st)) p))
         (BoundaryFace.normal (boundaryFace (fst st)))"
proof (induction n)
  case 0
  then show ?case by simp
next
  case (Suc n)
  show ?case
  proof (cases "p = n")
    case True
    then show ?thesis
      by (simp add: phaseStep_KmvpNormal fold_phaseStep_frame)
  next
    case False
    with Suc.prems have "p < n" by simp
    from Suc.IH [OF this] False show ?thesis
      by (simp add: phaseStep_KmvpNormal phaseStep_potentialGrad fold_phaseStep_frame)
  qed
qed

lemma fold_phaseStep_porousDiffCoeff:
  "p < n \<Longrightarrow>
   porousDiffCoeff (fst (fold (phaseStep tt problem element ed) [0..<n] st)) p =
     (if saturation (ed (scvIdx (fst st))) p \<le> 0 then Some 0
      else map_option
             (\<lambda>tau. porosity (ed (scvIdx (fst st))) * saturation (ed (scvIdx (fst st))) p * tau
                     * diffCoeff (ed (scvIdx (fst st))) p)
             (do { q \<leftarrow> fdiv 1 (porosity (ed (scvIdx (fst st))) * porosity (ed (scvIdx (fst st))));
                   pw \<leftarrow> pow (porosity (ed (scvIdx (fst st))) * saturation (ed (scvIdx (fst st))) p) (7 / 3);
                   Some (q * pw) }))"
proof (induction n)
  case 0
  then show ?case by simp
next
  case (Suc n)
  show ?case
  proof (cases "p = n")
    case True
    then show ?thesis
      by (simp add: phaseStep_porousDiffCoeff fold_phaseStep_frame)
  next
    case False
    with Suc.prems have "p < n" by simp
    from Suc.IH [OF this] False show ?thesis
      by (simp add: phaseStep_porousDiffCoeff fold_phaseStep_frame)
  qed
qed

lemma ctor_frame:
  "fvElemGeom (TwoPTwoCBoundaryVariables_ctor tt uninit problem element elemGeom bfIdx ed sIdx) = elemGeom"
  "boundaryFace (TwoPTwoCBoundaryVariables_ctor tt uninit problem element elemGeom bfIdx ed sIdx)
     = FVElementGeometry.boundaryFace elemGeom bfIdx"
  "scvIdx (TwoPTwoCBoundaryVariables_ctor tt uninit problem element elemGeom bfIdx ed sIdx) = sIdx"
  by (simp_all add: TwoPTwoCBoundaryVariables_ctor_def calculateBoundaryValues_def Let_def
        fold_phaseStep_frame fold_vertexStep_frame fold_initPhase)

lemma ctor_concentrationGrad:
  "p < NumPhases tt \<Longrightarrow>
   concentrationGrad (TwoPTwoCBoundaryVariables_ctor tt uninit problem element elemGeom bfIdx ed sIdx) p i =
     (if p = lPhaseIdx tt
      then (\<Sum>idx<numVertices elemGeom. BoundaryFace.grad (FVElementGeometry.boundaryFace elemGeom bfIdx) idx i
             * massFraction (fluidState (ed idx)) (lPhaseIdx tt) (gCompIdx tt)) else 0) +
     (if p = gPhaseIdx tt
      then (\<Sum>idx<numVertices elemGeom. BoundaryFace.grad (FVElementGeometry.boundaryFace elemGeom bfIdx) idx i
             * massFraction (fluidState (ed idx)) (gPhaseIdx tt) (lCompIdx tt)) else 0)"
  by (simp add: TwoPTwoCBoundaryVariables_ctor_def calculateBoundaryValues_def Let_def
        fold_phaseStep_frame fold_vertexStep_concentrationGrad fold_initPhase vconst_def)

lemma ctor_molarConcGrad:
  "p < NumPhases tt \<Longrightarrow>
   molarConcGrad (TwoPTwoCBoundaryVariables_ctor tt uninit problem element elemGeom bfIdx ed sIdx) p i =
     (if p = lPhaseIdx tt
      then (\<Sum>idx<numVertices elemGeom. BoundaryFace.grad (FVElementGeometry.boundaryFace elemGeom bfIdx) idx i
             * moleFraction (fluidState (ed idx)) (lPhaseIdx tt) (gCompIdx tt)) else 0) +
     (if p = gPhaseIdx tt
      then (\<Sum>idx<numVertices elemGeom. BoundaryFace.grad (FVElementGeometry.boundaryFace elemGeom bfIdx) idx i
             * moleFraction (fluidState (ed idx)) (gPhaseIdx tt) (lCompIdx tt)) else 0)"
  by (simp add: TwoPTwoCBoundaryVariables_ctor_def calculateBoundaryValues_def Let_def
        fold_phaseStep_frame fold_vertexStep_molarConcGrad fold_initPhase vconst_def)

lemma ctor_atIP:
  "p < NumPhases tt \<Longrightarrow>
   pressureAtIP (TwoPTwoCBoundaryVariables_ctor tt uninit problem element elemGeom bfIdx ed sIdx) p =
     (\<Sum>idx<numVertices elemGeom. pressure (ed idx) p
        * shapeValue (FVElementGeometry.boundaryFace elemGeom bfIdx) idx)"
  "p < NumPhases tt \<Longrightarrow>
   densityAtIP (TwoPTwoCBoundaryVariables_ctor tt uninit problem element elemGeom bfIdx ed sIdx) p =
     (\<Sum>idx<numVertices elemGeom. density (ed idx) p
        * shapeValue (FVElementGeometry.boundaryFace elemGeom bfIdx) idx)"
  "p < NumPhases tt \<Longrightarrow>
   molarDensityAtIP (TwoPTwoCBoundaryVariables_ctor tt uninit problem element elemGeom bfIdx ed sIdx) p =
     (\<Sum>idx<numVertices elemGeom. molarDensity (ed idx) p
        * shapeValue (FVElementGeometry.boundaryFace elemGeom bfIdx) idx)"
  by (simp_all add: TwoPTwoCBoundaryVariables_ctor_def calculateBoundaryValues_def Let_def
        fold_phaseStep_frame fold_vertexStep_atIP fold_initPhase)

lemma ctor_potentialGrad:
  "p < NumPhases tt \<Longrightarrow>
   potentialGrad (TwoPTwoCBoundaryVariables_ctor tt uninit problem element elemGeom bfIdx ed sIdx) p i =
     (\<Sum>idx<numVertices elemGeom. BoundaryFace.grad (FVElementGeometry.boundaryFace elemGeom bfIdx) idx i
        * pressure (ed idx) p)
     - (if EnableGravity tt
        then gravity problem i
               * densityAtIP (TwoPTwoCBoundaryVariables_ctor tt uninit problem element elemGeom bfIdx ed sIdx) p
        else if numVertices elemGeom = 0 then 0
        else BoundaryFace.grad (FVElementGeometry.boundaryFace elemGeom bfIdx) (numVertices elemGeom - 1) i
               * moleFraction (fluidState (ed (numVertices elemGeom - 1))) (gPhaseIdx tt) (lCompIdx tt))"
  by (simp add: TwoPTwoCBoundaryVariables_ctor_def calculateBoundaryValues_def Let_def
        fold_phaseStep_frame fold_phaseStep_potentialGrad fold_vertexStep_potentialGrad
        fold_vertexStep_atIP fold_vertexStep_tmp fold_initPhase vconst_def vsub_def vscale_def)

lemma ctor_KmvpNormal:
  "p < NumPhases tt \<Longrightarrow>
   KmvpNormal (TwoPTwoCBoundaryVariables_ctor tt uninit problem element elemGeom bfIdx ed sIdx) p =
     - vdot (dim tt)
         (mv (dim tt)
            (permeabilityTensor (intrinsicPermeability (spatialParameters problem) element elemGeom sIdx))
            (potentialGrad (TwoPTwoCBoundaryVariables_ctor tt uninit problem element elemGeom bfIdx ed sIdx) p))
         (BoundaryFace.normal (FVElementGeometry.boundaryFace elemGeom bfIdx))"
  by (simp add: TwoPTwoCBoundaryVariables_ctor_def calculateBoundaryValues_def Let_def
        fold_phaseStep_KmvpNormal fold_vertexStep_frame fold_initPhase)

lemma ctor_porousDiffCoeff:
  "p < NumPhases tt \<Longrightarrow>
   porousDiffCoeff (TwoPTwoCBoundaryVariables_ctor tt uninit problem element elemGeom bfIdx ed sIdx) p =
     (if saturation (ed sIdx) p \<le> 0 then Some 0
      else map_option (\<lambda>tau. porosity (ed sIdx) * saturation (ed sIdx) p * tau * diffCoeff (ed sIdx) p)
             (do { q \<leftarrow> fdiv 1 (porosity (ed sIdx) * porosity (ed sIdx));
                   pw \<leftarrow> pow (porosity (ed sIdx) * saturation (ed sIdx) p) (7 / 3);
                   Some (q * pw) }))"
  by (simp add: TwoPTwoCBoundaryVariables_ctor_def calculateBoundaryValues_def Let_def
        fold_phaseStep_porousDiffCoeff fold_vertexStep_frame fold_initPhase)

section \<open>The permeability tensor, uniform fields and the temperature loop\<close>

lemma permeabilityTensor_entry:
  "permeabilityTensor k i j = (if i = j \<and> i < 2 then k else 0)"
  by (auto simp: permeabilityTensor_def Let_def tset_def tconst_def)

lemma mv_permeabilityTensor:
  assumes "i < d"
  shows "mv d (permeabilityTensor k) x i = (if i < 2 then k * x i else 0)"
proof -
  have "mv d (permeabilityTensor k) x i = (\<Sum>j<d. (if j = i then (if i < 2 then k else 0) * x j else 0))"
    unfolding mv_def by (rule sum.cong) (auto simp: permeabilityTensor_entry)
  also have "\<dots> = (if i < 2 then k else 0) * x i"
    using assms by simp
  finally show ?thesis by simp
qed

lemma vdot_mv_permeabilityTensor:
  assumes "2 \<le> d"
  shows "vdot d (mv d (permeabilityTensor k) x) n = k * (x 0 * n 0 + x 1 * n 1)"
proof -
  have "vdot d (mv d (permeabilityTensor k) x) n = (\<Sum>i<d. if i < 2 then k * x i * n i else 0)"
    unfolding vdot_def by (rule sum.cong) (auto simp: mv_permeabilityTensor)
  also have "\<dots> = (\<Sum>i\<in>{..<d} \<inter> {i. i < 2}. k * x i * n i)"
    by (simp add: sum.inter_restrict)
  also have "{..<d} \<inter> {i. i < 2} = {..<2::nat}"
    using assms by auto
  also have "(\<Sum>i<2::nat. k * x i * n i) = k * (x 0 * n 0 + x 1 * n 1)"
    by (simp add: eval_nat_numeral algebra_simps)
  finally show ?thesis .
qed

lemma vdot_mv_zero:
  assumes "\<forall>j<d. x j = 0"
  shows "vdot d (mv d K x) n = 0"
  using assms by (simp add: vdot_def mv_def)

lemma uniformOn_sum:
  fixes f :: "nat \<Rightarrow> real"
  assumes "uniformOn n f"
  shows "(\<Sum>idx<n. g idx * f idx) = (\<Sum>idx<n. g idx) * f 0"
proof -
  have eq: "g idx * f idx = g idx * f 0" if "idx \<in> {..<n}" for idx
  proof -
    from assms that have "f idx = f 0"
      unfolding uniformOn_def by blast
    then show ?thesis by (rule arg_cong)
  qed
  have "(\<Sum>idx<n. g idx * f idx) = (\<Sum>idx<n. g idx * f 0)"
    by (rule sum.cong [OF refl]) (rule eq)
  then show ?thesis by (simp add: sum_distrib_right)
qed

lemma uniformOn_gradsSumToZero:
  fixes f :: "nat \<Rightarrow> real"
  assumes "uniformOn n f" and "gradsSumToZero d n g" and "i < d"
  shows "(\<Sum>idx<n. g idx i * f idx) = 0"
  using assms uniformOn_sum [of n f "\<lambda>idx. g idx i"] by (simp add: gradsSumToZero_def)

lemma fold_temperatureGradStep:
  "fst (fold (temperatureGradStep elemGeom scvfIdx elemDat) [0..<n] st) i =
     fst st i + (\<Sum>vertIdx<n. SubControlVolumeFace.grad (subContVolFace elemGeom scvfIdx) vertIdx i
                      * temperature (elemDat vertIdx))"
  by (induction n) (simp_all add: temperatureGradStep_def Let_def vadd_def vscale_def)

lemma temperatureGradLoop_fst:
  "fst (temperatureGradLoop elemGeom scvfIdx elemDat) i =
     (\<Sum>vertIdx<numVertices elemGeom. SubControlVolumeFace.grad (subContVolFace elemGeom scvfIdx) vertIdx i
        * temperature (elemDat vertIdx))"
  by (simp add: temperatureGradLoop_def Let_def fold_temperatureGradStep vconst_def)

lemma ctor_normalMatrixHeatFlux:
  "normalMatrixHeatFlux (TwoPTwoCNIFluxVariables_ctor tt parentCtor uninit problem element elemGeom scvfIdx elemDat) =
     vdot (dimWorld tt)
       (matrixHeatFlux (spatialParameters problem) (snd (temperatureGradLoop elemGeom scvfIdx elemDat))
          (parentCtor problem element elemGeom scvfIdx elemDat) elemDat
          (fst (temperatureGradLoop elemGeom scvfIdx elemDat)) element elemGeom scvfIdx)
       (SubControlVolumeFace.normal (subContVolFace elemGeom scvfIdx))"
  by (simp add: TwoPTwoCNIFluxVariables_ctor_def Let_def)

section \<open>The claims\<close>

lemmas ex_defs = exTypeTag_def exVolVars_def exElemDat_def exUniformDat_def exGrad_def
  exGeometry_def exProblem_def vec3_def

text \<open>
  C1. The claim: with gravity disabled, the potential gradient of every phase is the raw
  pressure gradient, the sum over the vertices of the shape-function gradient times the
  vertex's phase pressure, and nothing is subtracted. The code subtracts \<open>tmp\<close> in both
  cases, and with gravity disabled \<open>tmp\<close> still holds what the first loop left in it: the
  last vertex's gradient times its mole fraction of the liquid component in the gas phase.
  On the two-vertex element with pressures 2 and 1 the raw pressure gradient along the
  first axis is \<open>-1\<close>, and the constructor computes \<open>-3/2\<close>.
\<close>

theorem C1_stale_tmp_subtracted_without_gravity:
  "potentialGrad
     (TwoPTwoCBoundaryVariables_ctor (exTypeTag 2 False) exUninit (exProblem (vec3 0 (- 10) 0) 3) ()
        (exGeometry (vec3 1 0 0)) 0 exElemDat 0) 0 0 = - 3 / 2
   \<and> (\<Sum>idx<numVertices (exGeometry (vec3 1 0 0)).
         BoundaryFace.grad (FVElementGeometry.boundaryFace (exGeometry (vec3 1 0 0)) 0) idx 0
           * pressure (exElemDat idx) 0) = - 1"
  by (simp add: ctor_potentialGrad ex_defs eval_nat_numeral)

text \<open>
  C2. For every phase whose saturation at the designated sub-control volume is at most
  zero, the effective diffusion coefficient is exactly zero, whatever the porosity and the
  molecular diffusion coefficient, and its computation signals no floating-point exception
  (the value is \<open>Some 0\<close>, not \<open>None\<close>): the division and the power are not evaluated.
\<close>

theorem C2_absent_phase_no_diffusion:
  assumes "p < NumPhases tt"
    and "saturation (elemDat scvIdxArg) p \<le> 0"
  shows "porousDiffCoeff
           (TwoPTwoCBoundaryVariables_ctor tt uninit problem element elemGeom boundaryFaceIdx elemDat scvIdxArg) p
         = Some 0"
  using assms by (simp add: ctor_porousDiffCoeff)

text \<open>The gas phase of a medium of porosity zero: saturation 0, coefficient \<open>Some 0\<close>.\<close>

theorem C2_witness:
  "(1::nat) < NumPhases (exTypeTag 2 True)
   \<and> saturation ((\<lambda>idx. exVolVars 1 0) (0::nat)) 1 \<le> 0
   \<and> porousDiffCoeff
        (TwoPTwoCBoundaryVariables_ctor (exTypeTag 2 True) exUninit (exProblem (vec3 0 (- 10) 0) 3) ()
           (exGeometry (vec3 1 0 0)) 0 (\<lambda>idx. exVolVars 1 0) 0) 1 = Some 0"
  using C2_absent_phase_no_diffusion [of 1 "exTypeTag 2 True" "\<lambda>idx. exVolVars 1 0" 0 exUninit
      "exProblem (vec3 0 (- 10) 0) 3" "()" "exGeometry (vec3 1 0 0)" 0]
  by (simp add: ex_defs)

text \<open>
  In the same medium the liquid phase is present (saturation 1), the other branch runs,
  and its division by the squared porosity signals the exception.
\<close>

lemma porousDiffCoeff_exception_example:
  "porousDiffCoeff
        (TwoPTwoCBoundaryVariables_ctor (exTypeTag 2 True) exUninit (exProblem (vec3 0 (- 10) 0) 3) ()
           (exGeometry (vec3 1 0 0)) 0 (\<lambda>idx. exVolVars 1 0) 0) 0 = None"
  by (simp add: ctor_porousDiffCoeff ex_defs fdiv_def)

text \<open>
  C3. For every phase whose saturation \<open>Sw\<close> at the designated sub-control volume is
  positive, and a positive porosity \<open>phi\<close> there, the effective diffusion coefficient is
  \<open>phi * Sw * tau * D\<close> with \<open>tau = phi^-2 * (phi * Sw)^(7/3)\<close> and \<open>D\<close> the molecular
  diffusion coefficient of the phase.
\<close>

theorem C3_effective_diffusion_coefficient:
  assumes "p < NumPhases tt"
    and "0 < saturation (elemDat scvIdxArg) p"
    and "0 < porosity (elemDat scvIdxArg)"
  shows "porousDiffCoeff
           (TwoPTwoCBoundaryVariables_ctor tt uninit problem element elemGeom boundaryFaceIdx elemDat scvIdxArg) p
         = (let phi = porosity (elemDat scvIdxArg);
                Sw = saturation (elemDat scvIdxArg) p;
                tau = phi powr (- 2) * (phi * Sw) powr (7 / 3)
            in Some (phi * Sw * tau * diffCoeff (elemDat scvIdxArg) p))"
proof -
  let ?phi = "porosity (elemDat scvIdxArg)"
  have "?phi powr (- 2) = 1 / (?phi * ?phi)"
    using assms(3) by (simp add: powr_minus_divide power2_eq_square)
  moreover have "\<not> ?phi * saturation (elemDat scvIdxArg) p < 0"
    using assms(2,3) by (simp add: not_less zero_le_mult_iff)
  ultimately show ?thesis
    using assms by (simp add: ctor_porousDiffCoeff fdiv_def pow_def Let_def not_le)
qed

text \<open>Porosity 1, saturation 1 and molecular coefficient 2 give the coefficient 2.\<close>

theorem C3_witness:
  "(0::nat) < NumPhases (exTypeTag 2 True)
   \<and> 0 < saturation (exElemDat 0) 0 \<and> 0 < porosity (exElemDat 0)
   \<and> porousDiffCoeff
        (TwoPTwoCBoundaryVariables_ctor (exTypeTag 2 True) exUninit (exProblem (vec3 0 (- 10) 0) 3) ()
           (exGeometry (vec3 1 0 0)) 0 exElemDat 0) 0 = Some 2"
  using C3_effective_diffusion_coefficient [of 0 "exTypeTag 2 True" exElemDat 0 exUninit
      "exProblem (vec3 0 (- 10) 0) 3" "()" "exGeometry (vec3 1 0 0)" 0]
  by (simp add: ex_defs)

text \<open>
  C4. For every phase, the Darcy flux intensity \<open>KmvpNormal\<close> is the negated scalar product
  of \<open>K\<close> applied to the phase's potential gradient with the face normal, \<open>K\<close> being the
  tensor built from the intrinsic permeability at the designated sub-control volume; so
  where that projection is negative the flux intensity is positive. (The tensor's entry
  \<open>(1, 1)\<close> is written, which needs a grid of dimension two or more.)
\<close>

theorem C4_darcy_flux_intensity:
  assumes "2 \<le> dim tt"
    and "p < NumPhases tt"
  shows "(let r = TwoPTwoCBoundaryVariables_ctor tt uninit problem element elemGeom boundaryFaceIdx elemDat scvIdxArg;
              K = permeabilityTensor (intrinsicPermeability (spatialParameters problem) element elemGeom scvIdxArg);
              Kmvp = mv (dim tt) K (potentialGrad r p);
              faceNormal = BoundaryFace.normal (FVElementGeometry.boundaryFace elemGeom boundaryFaceIdx)
          in KmvpNormal r p = - vdot (dim tt) Kmvp faceNormal
             \<and> (vdot (dim tt) Kmvp faceNormal < 0 \<longrightarrow> 0 < KmvpNormal r p))"
  using assms by (simp add: Let_def ctor_KmvpNormal)

text \<open>
  The two-vertex element, gravity disabled, normal \<open>(1, 0)\<close>: the projection is \<open>-9/2\<close>
  and the flux intensity \<open>9/2\<close>.
\<close>

theorem C4_witness:
  "2 \<le> dim (exTypeTag 2 False) \<and> (0::nat) < NumPhases (exTypeTag 2 False)
   \<and> vdot 2 (mv 2 (permeabilityTensor 3)
        (potentialGrad
           (TwoPTwoCBoundaryVariables_ctor (exTypeTag 2 False) exUninit (exProblem (vec3 0 (- 10) 0) 3) ()
              (exGeometry (vec3 1 0 0)) 0 exElemDat 0) 0)) (vec3 1 0 0) = - 9 / 2
   \<and> KmvpNormal
        (TwoPTwoCBoundaryVariables_ctor (exTypeTag 2 False) exUninit (exProblem (vec3 0 (- 10) 0) 3) ()
           (exGeometry (vec3 1 0 0)) 0 exElemDat 0) 0 = 9 / 2"
  using C4_darcy_flux_intensity [of "exTypeTag 2 False" 0 exUninit "exProblem (vec3 0 (- 10) 0) 3" "()"
      "exGeometry (vec3 1 0 0)" 0 exElemDat 0]
  by (simp add: Let_def vdot_mv_permeabilityTensor ctor_potentialGrad ex_defs eval_nat_numeral)

text \<open>
  C5. The claim: on a boundary face whose per-vertex inputs are uniform and whose
  shape-function gradients sum to zero, the potential, concentration and
  molar-concentration gradients and the Darcy flux intensity are zero for every phase. With
  gravity enabled the code subtracts the gravity vector times the density at the
  integration point from the (zero) pressure gradient: on the two-vertex element with
  gravity \<open>(0, -10)\<close>, density 1 and normal \<open>(0, -1)\<close> the potential gradient of the liquid
  phase is \<open>(0, 10)\<close> and its flux intensity 30.
\<close>

theorem C5_counterexample:
  "gradsSumToZero 2 2 (BoundaryFace.grad (FVElementGeometry.boundaryFace (exGeometry (vec3 0 (- 1) 0)) 0))
   \<and> uniformOn 2 exUniformDat
   \<and> potentialGrad
        (TwoPTwoCBoundaryVariables_ctor (exTypeTag 2 True) exUninit (exProblem (vec3 0 (- 10) 0) 3) ()
           (exGeometry (vec3 0 (- 1) 0)) 0 exUniformDat 0) 0 1 = 10
   \<and> KmvpNormal
        (TwoPTwoCBoundaryVariables_ctor (exTypeTag 2 True) exUninit (exProblem (vec3 0 (- 10) 0) 3) ()
           (exGeometry (vec3 0 (- 1) 0)) 0 exUniformDat 0) 0 = 30"
proof -
  have "gradsSumToZero 2 2 (BoundaryFace.grad (FVElementGeometry.boundaryFace (exGeometry (vec3 0 (- 1) 0)) 0))"
    by (simp add: gradsSumToZero_def ex_defs eval_nat_numeral All_less_Suc)
  moreover have "uniformOn 2 exUniformDat"
    by (simp add: uniformOn_def ex_defs)
  moreover have "potentialGrad
        (TwoPTwoCBoundaryVariables_ctor (exTypeTag 2 True) exUninit (exProblem (vec3 0 (- 10) 0) 3) ()
           (exGeometry (vec3 0 (- 1) 0)) 0 exUniformDat 0) 0 = vec3 0 10 0"
    by (rule ext) (simp add: ctor_potentialGrad ctor_atIP ex_defs eval_nat_numeral)
  ultimately show ?thesis
    by (simp add: ctor_KmvpNormal vdot_mv_permeabilityTensor ex_defs)
qed

text \<open>
  C5, amended. On such a face the concentration and molar-concentration gradients of
  every phase are zero, and the density at the integration point is the uniform density
  times the sum of the shape values; with gravity enabled the potential gradient is the
  buoyancy term alone, minus the gravity vector times that density, so that the potential
  gradient and the Darcy flux intensity are zero where this product is zero.
\<close>

theorem C5_uniform_boundary_face:
  assumes "p < NumPhases tt"
    and "gradsSumToZero (dim tt) (numVertices elemGeom)
           (BoundaryFace.grad (FVElementGeometry.boundaryFace elemGeom boundaryFaceIdx))"
    and "uniformOn (numVertices elemGeom) (\<lambda>idx. pressure (elemDat idx) p)"
    and "uniformOn (numVertices elemGeom) (\<lambda>idx. density (elemDat idx) p)"
    and "uniformOn (numVertices elemGeom)
           (\<lambda>idx. massFraction (fluidState (elemDat idx)) (lPhaseIdx tt) (gCompIdx tt))"
    and "uniformOn (numVertices elemGeom)
           (\<lambda>idx. moleFraction (fluidState (elemDat idx)) (lPhaseIdx tt) (gCompIdx tt))"
    and "uniformOn (numVertices elemGeom)
           (\<lambda>idx. massFraction (fluidState (elemDat idx)) (gPhaseIdx tt) (lCompIdx tt))"
    and "uniformOn (numVertices elemGeom)
           (\<lambda>idx. moleFraction (fluidState (elemDat idx)) (gPhaseIdx tt) (lCompIdx tt))"
  shows "(let r = TwoPTwoCBoundaryVariables_ctor tt uninit problem element elemGeom boundaryFaceIdx elemDat scvIdxArg;
              rhoIP = density (elemDat 0) p
                        * (\<Sum>idx<numVertices elemGeom.
                             shapeValue (FVElementGeometry.boundaryFace elemGeom boundaryFaceIdx) idx)
          in (\<forall>i<dim tt. concentrationGrad r p i = 0 \<and> molarConcGrad r p i = 0)
             \<and> densityAtIP r p = rhoIP
             \<and> (EnableGravity tt \<longrightarrow>
                  (\<forall>i<dim tt. potentialGrad r p i = - (gravity problem i * rhoIP))
                  \<and> ((\<forall>i<dim tt. gravity problem i * rhoIP = 0) \<longrightarrow>
                       (\<forall>i<dim tt. potentialGrad r p i = 0) \<and> KmvpNormal r p = 0)))"
proof -
  let ?bf = "FVElementGeometry.boundaryFace elemGeom boundaryFaceIdx"
  let ?n = "numVertices elemGeom"
  let ?r = "TwoPTwoCBoundaryVariables_ctor tt uninit problem element elemGeom boundaryFaceIdx elemDat scvIdxArg"
  let ?rhoIP = "density (elemDat 0) p * (\<Sum>idx<?n. shapeValue ?bf idx)"
  note z = uniformOn_gradsSumToZero [OF _ assms(2)]
  have conc: "concentrationGrad ?r p i = 0" if "i < dim tt" for i
    unfolding ctor_concentrationGrad [OF assms(1)] z [OF assms(5) that] z [OF assms(7) that]
    by simp
  have molar: "molarConcGrad ?r p i = 0" if "i < dim tt" for i
    unfolding ctor_molarConcGrad [OF assms(1)] z [OF assms(6) that] z [OF assms(8) that]
    by simp
  have rho: "densityAtIP ?r p = ?rhoIP"
    using assms(1) uniformOn_sum [OF assms(4), of "shapeValue ?bf"]
    by (simp add: ctor_atIP mult.commute)
  have pot: "potentialGrad ?r p i = - (gravity problem i * ?rhoIP)" if "EnableGravity tt" "i < dim tt" for i
    using assms(1) that z [OF assms(3) that(2)] rho by (simp add: ctor_potentialGrad)
  have flux: "KmvpNormal ?r p = 0" if "\<forall>i<dim tt. potentialGrad ?r p i = 0"
    using assms(1) that by (simp add: ctor_KmvpNormal vdot_mv_zero)
  show ?thesis
    unfolding Let_def using conc molar rho pot flux by simp
qed

text \<open>The same face under a zero gravity vector: every gradient and the flux are zero.\<close>

theorem C5_witness:
  "(0::nat) < NumPhases (exTypeTag 2 True)
   \<and> gradsSumToZero 2 2 (BoundaryFace.grad (FVElementGeometry.boundaryFace (exGeometry (vec3 0 (- 1) 0)) 0))
   \<and> uniformOn 2 exUniformDat
   \<and> EnableGravity (exTypeTag 2 True)
   \<and> concentrationGrad
        (TwoPTwoCBoundaryVariables_ctor (exTypeTag 2 True) exUninit (exProblem (vec3 0 0 0) 3) ()
           (exGeometry (vec3 0 (- 1) 0)) 0 exUniformDat 0) 0 0 = 0
   \<and> densityAtIP
        (TwoPTwoCBoundaryVariables_ctor (exTypeTag 2 True) exUninit (exProblem (vec3 0 0 0) 3) ()
           (exGeometry (vec3 0 (- 1) 0)) 0 exUniformDat 0) 0 = 1
   \<and> potentialGrad
        (TwoPTwoCBoundaryVariables_ctor (exTypeTag 2 True) exUninit (exProblem (vec3 0 0 0) 3) ()
           (exGeometry (vec3 0 (- 1) 0)) 0 exUniformDat 0) 0 1 = 0
   \<and> KmvpNormal
        (TwoPTwoCBoundaryVariables_ctor (exTypeTag 2 True) exUninit (exProblem (vec3 0 0 0) 3) ()
           (exGeometry (vec3 0 (- 1) 0)) 0 exUniformDat 0) 0 = 0"
proof -
  have g: "gradsSumToZero 2 2 (BoundaryFace.grad (FVElementGeometry.boundaryFace (exGeometry (vec3 0 (- 1) 0)) 0))"
    by (simp add: gradsSumToZero_def ex_defs eval_nat_numeral All_less_Suc)
  have u: "uniformOn 2 exUniformDat" "uniformOn 2 (\<lambda>idx. h (exUniformDat idx))" for h :: "VolumeVariables \<Rightarrow> real"
    by (simp_all add: uniformOn_def ex_defs)
  have gs: "gradsSumToZero (dim (exTypeTag 2 True)) (numVertices (exGeometry (vec3 0 (- 1) 0)))
              (BoundaryFace.grad (FVElementGeometry.boundaryFace (exGeometry (vec3 0 (- 1) 0)) 0))"
    using g by (simp add: ex_defs)
  have n: "numVertices (exGeometry (vec3 0 (- 1) 0)) = 2" "(0::nat) < NumPhases (exTypeTag 2 True)"
    by (simp_all add: ex_defs)
  from C5_uniform_boundary_face [of 0 "exTypeTag 2 True" "exGeometry (vec3 0 (- 1) 0)" 0 exUniformDat
      exUninit "exProblem (vec3 0 0 0) 3" "()" 0, OF n(2) gs, unfolded n(1), OF u(2) u(2) u(2) u(2) u(2) u(2)]
  show ?thesis
    using g u(1) by (simp add: Let_def ex_defs eval_nat_numeral All_less_Suc)
qed

text \<open>
  C6. Where every vertex holds the same value of a field and the shape-function
  gradients at the integration point sum to the zero vector, the reconstructed gradient of
  that field is the zero vector: the mass and the mole fraction of the gas component in
  the liquid phase and of the liquid component in the gas phase on a boundary face
  (concentration and molar-concentration gradient of that phase, the two phase indices
  being distinct), and the temperature on a sub-control-volume face of the non-isothermal
  extension.
\<close>

theorem C6_uniform_field_zero_gradient:
  assumes "lPhaseIdx tt < NumPhases tt" and "gPhaseIdx tt < NumPhases tt"
    and "lPhaseIdx tt \<noteq> gPhaseIdx tt"
  shows "(let r = TwoPTwoCBoundaryVariables_ctor tt uninit problem element elemGeom boundaryFaceIdx elemDat scvIdxArg;
              n = numVertices elemGeom;
              l = lPhaseIdx tt; g = gPhaseIdx tt; lc = lCompIdx tt; gc = gCompIdx tt
          in (gradsSumToZero (dim tt) n (BoundaryFace.grad (FVElementGeometry.boundaryFace elemGeom boundaryFaceIdx)) \<longrightarrow>
                (uniformOn n (\<lambda>idx. massFraction (fluidState (elemDat idx)) l gc) \<longrightarrow>
                   (\<forall>i<dim tt. concentrationGrad r l i = 0))
              \<and> (uniformOn n (\<lambda>idx. moleFraction (fluidState (elemDat idx)) l gc) \<longrightarrow>
                   (\<forall>i<dim tt. molarConcGrad r l i = 0))
              \<and> (uniformOn n (\<lambda>idx. massFraction (fluidState (elemDat idx)) g lc) \<longrightarrow>
                   (\<forall>i<dim tt. concentrationGrad r g i = 0))
              \<and> (uniformOn n (\<lambda>idx. moleFraction (fluidState (elemDat idx)) g lc) \<longrightarrow>
                   (\<forall>i<dim tt. molarConcGrad r g i = 0)))
             \<and> (gradsSumToZero (dimWorld tt) n (SubControlVolumeFace.grad (subContVolFace elemGeom scvfIdx))
                  \<and> uniformOn n (\<lambda>idx. temperature (elemDat idx)) \<longrightarrow>
                (\<forall>i<dimWorld tt. fst (temperatureGradLoop elemGeom scvfIdx elemDat) i = 0)))"
proof -
  let ?bf = "FVElementGeometry.boundaryFace elemGeom boundaryFaceIdx"
  let ?n = "numVertices elemGeom"
  let ?r = "TwoPTwoCBoundaryVariables_ctor tt uninit problem element elemGeom boundaryFaceIdx elemDat scvIdxArg"
  show ?thesis
    unfolding Let_def
  proof (intro conjI impI allI)
    fix i
    assume "gradsSumToZero (dim tt) ?n (BoundaryFace.grad ?bf)"
      and "uniformOn ?n (\<lambda>idx. massFraction (fluidState (elemDat idx)) (lPhaseIdx tt) (gCompIdx tt))"
      and "i < dim tt"
    from uniformOn_gradsSumToZero [OF this(2) this(1) this(3)]
    show "concentrationGrad ?r (lPhaseIdx tt) i = 0"
      using assms by (simp add: ctor_concentrationGrad)
  next
    fix i
    assume "gradsSumToZero (dim tt) ?n (BoundaryFace.grad ?bf)"
      and "uniformOn ?n (\<lambda>idx. moleFraction (fluidState (elemDat idx)) (lPhaseIdx tt) (gCompIdx tt))"
      and "i < dim tt"
    from uniformOn_gradsSumToZero [OF this(2) this(1) this(3)]
    show "molarConcGrad ?r (lPhaseIdx tt) i = 0"
      using assms by (simp add: ctor_molarConcGrad)
  next
    fix i
    assume "gradsSumToZero (dim tt) ?n (BoundaryFace.grad ?bf)"
      and "uniformOn ?n (\<lambda>idx. massFraction (fluidState (elemDat idx)) (gPhaseIdx tt) (lCompIdx tt))"
      and "i < dim tt"
    from uniformOn_gradsSumToZero [OF this(2) this(1) this(3)]
    show "concentrationGrad ?r (gPhaseIdx tt) i = 0"
      using assms by (simp add: ctor_concentrationGrad)
  next
    fix i
    assume "gradsSumToZero (dim tt) ?n (BoundaryFace.grad ?bf)"
      and "uniformOn ?n (\<lambda>idx. moleFraction (fluidState (elemDat idx)) (gPhaseIdx tt) (lCompIdx tt))"
      and "i < dim tt"
    from uniformOn_gradsSumToZero [OF this(2) this(1) this(3)]
    show "molarConcGrad ?r (gPhaseIdx tt) i = 0"
      using assms by (simp add: ctor_molarConcGrad)
  next
    fix i
    assume "gradsSumToZero (dimWorld tt) ?n (SubControlVolumeFace.grad (subContVolFace elemGeom scvfIdx))
              \<and> uniformOn ?n (\<lambda>idx. temperature (elemDat idx))"
      and "i < dimWorld tt"
    then have "(\<Sum>idx<?n. SubControlVolumeFace.grad (subContVolFace elemGeom scvfIdx) idx i
                  * temperature (elemDat idx)) = 0"
      by (intro uniformOn_gradsSumToZero [where d = "dimWorld tt"]) simp_all
    then show "fst (temperatureGradLoop elemGeom scvfIdx elemDat) i = 0"
      by (simp add: temperatureGradLoop_fst)
  qed
qed

text \<open>The two-vertex element: fractions 1/4 and 1/2 and 300 K at both vertices.\<close>

theorem C6_witness:
  "lPhaseIdx (exTypeTag 2 True) < NumPhases (exTypeTag 2 True)
   \<and> gPhaseIdx (exTypeTag 2 True) < NumPhases (exTypeTag 2 True)
   \<and> lPhaseIdx (exTypeTag 2 True) \<noteq> gPhaseIdx (exTypeTag 2 True)
   \<and> gradsSumToZero 2 2 exGrad
   \<and> uniformOn 2 (\<lambda>idx. massFraction (fluidState (exElemDat idx)) 0 1)
   \<and> uniformOn 2 (\<lambda>idx. moleFraction (fluidState (exElemDat idx)) 1 0)
   \<and> uniformOn 2 (\<lambda>idx. temperature (exElemDat idx))
   \<and> concentrationGrad
        (TwoPTwoCBoundaryVariables_ctor (exTypeTag 2 True) exUninit (exProblem (vec3 0 (- 10) 0) 3) ()
           (exGeometry (vec3 1 0 0)) 0 exElemDat 0) 0 0 = 0
   \<and> molarConcGrad
        (TwoPTwoCBoundaryVariables_ctor (exTypeTag 2 True) exUninit (exProblem (vec3 0 (- 10) 0) 3) ()
           (exGeometry (vec3 1 0 0)) 0 exElemDat 0) 1 0 = 0
   \<and> fst (temperatureGradLoop (exGeometry (vec3 1 0 0)) 0 exElemDat) 0 = 0"
proof -
  have g: "gradsSumToZero 2 2 exGrad"
    by (simp add: gradsSumToZero_def ex_defs eval_nat_numeral All_less_Suc)
  have u: "uniformOn 2 (\<lambda>idx. massFraction (fluidState (exElemDat idx)) 0 1)"
    "uniformOn 2 (\<lambda>idx. moleFraction (fluidState (exElemDat idx)) 0 1)"
    "uniformOn 2 (\<lambda>idx. massFraction (fluidState (exElemDat idx)) 1 0)"
    "uniformOn 2 (\<lambda>idx. moleFraction (fluidState (exElemDat idx)) 1 0)"
    "uniformOn 2 (\<lambda>idx. temperature (exElemDat idx))"
    by (simp_all add: uniformOn_def ex_defs)
  from C6_uniform_field_zero_gradient [of "exTypeTag 2 True" exUninit "exProblem (vec3 0 (- 10) 0) 3" "()"
      "exGeometry (vec3 1 0 0)" 0 exElemDat 0 0]
  show ?thesis
    using g u by (simp add: Let_def ex_defs eval_nat_numeral All_less_Suc)
qed

text \<open>
  C7. The non-isothermal extension computes the temperature gradient as the sum over the
  element's vertices of the face's shape-function gradient times the vertex's temperature,
  and sets the normal heat flux to the scalar product of the vector its heat-flux law
  returns with the face normal. If the temperature is uniform, the gradients sum to zero
  and the law maps a zero temperature gradient to the zero vector, the normal heat flux is
  zero.
\<close>

theorem C7_normal_heat_flux:
  "(let st = temperatureGradLoop elemGeom scvfIdx elemDat;
        temperatureGrad = fst st;
        face = subContVolFace elemGeom scvfIdx;
        n = numVertices elemGeom;
        law = matrixHeatFlux (spatialParameters problem);
        parent = parentCtor problem element elemGeom scvfIdx elemDat;
        r = TwoPTwoCNIFluxVariables_ctor tt parentCtor uninit problem element elemGeom scvfIdx elemDat
    in (\<forall>i. temperatureGrad i
              = (\<Sum>vertIdx<n. SubControlVolumeFace.grad face vertIdx i * temperature (elemDat vertIdx)))
       \<and> normalMatrixHeatFlux r
           = vdot (dimWorld tt) (law (snd st) parent elemDat temperatureGrad element elemGeom scvfIdx)
               (SubControlVolumeFace.normal face)
       \<and> (uniformOn n (\<lambda>vertIdx. temperature (elemDat vertIdx))
            \<and> gradsSumToZero (dimWorld tt) n (SubControlVolumeFace.grad face)
            \<and> (\<forall>heatFlux tempGrad. (\<forall>i<dimWorld tt. tempGrad i = 0) \<longrightarrow>
                  (\<forall>i<dimWorld tt. law heatFlux parent elemDat tempGrad element elemGeom scvfIdx i = 0))
          \<longrightarrow> normalMatrixHeatFlux r = 0))"
proof -
  let ?st = "temperatureGradLoop elemGeom scvfIdx elemDat"
  let ?face = "subContVolFace elemGeom scvfIdx"
  let ?n = "numVertices elemGeom"
  let ?law = "matrixHeatFlux (spatialParameters problem)"
  let ?parent = "parentCtor problem element elemGeom scvfIdx elemDat"
  let ?r = "TwoPTwoCNIFluxVariables_ctor tt parentCtor uninit problem element elemGeom scvfIdx elemDat"
  have zero: "normalMatrixHeatFlux ?r = 0"
    if u: "uniformOn ?n (\<lambda>vertIdx. temperature (elemDat vertIdx))"
      and g: "gradsSumToZero (dimWorld tt) ?n (SubControlVolumeFace.grad ?face)"
      and l: "\<forall>heatFlux tempGrad. (\<forall>i<dimWorld tt. tempGrad i = 0) \<longrightarrow>
                (\<forall>i<dimWorld tt. ?law heatFlux ?parent elemDat tempGrad element elemGeom scvfIdx i = 0)"
  proof -
    have "\<forall>i<dimWorld tt. fst ?st i = 0"
      using uniformOn_gradsSumToZero [OF u g] by (simp add: temperatureGradLoop_fst)
    with l have "\<forall>i<dimWorld tt. ?law (snd ?st) ?parent elemDat (fst ?st) element elemGeom scvfIdx i = 0"
      by blast
    then show ?thesis
      by (simp add: ctor_normalMatrixHeatFlux vdot_def)
  qed
  have grad: "\<forall>i. fst ?st i
               = (\<Sum>vertIdx<?n. SubControlVolumeFace.grad ?face vertIdx i * temperature (elemDat vertIdx))"
    by (simp add: temperatureGradLoop_fst)
  have flux: "normalMatrixHeatFlux ?r
               = vdot (dimWorld tt) (?law (snd ?st) ?parent elemDat (fst ?st) element elemGeom scvfIdx)
                   (SubControlVolumeFace.normal ?face)"
    by (rule ctor_normalMatrixHeatFlux)
  show ?thesis
    unfolding Let_def using grad flux zero by blast
qed

text \<open>Fourier's law with conductivity 2 on the two-vertex element at 300 K throughout.\<close>

theorem C7_witness:
  "uniformOn 2 (\<lambda>vertIdx. temperature (exElemDat vertIdx))
   \<and> gradsSumToZero 2 2 exGrad
   \<and> fst (temperatureGradLoop (exGeometry (vec3 1 0 0)) 0 exElemDat) 0 = 0
   \<and> normalMatrixHeatFlux
        (TwoPTwoCNIFluxVariables_ctor (exTypeTag 2 True) (\<lambda>problem element elemGeom scvfIdx elemDat. ())
           7 (exProblem (vec3 0 (- 10) 0) 3) () (exGeometry (vec3 1 0 0)) 0 exElemDat) = 0"
proof -
  let ?geom = "exGeometry (vec3 1 0 0)"
  let ?problem = "exProblem (vec3 0 (- 10) 0) 3"
  note t = C7_normal_heat_flux [of ?geom 0 exElemDat ?problem
      "\<lambda>problem element elemGeom scvfIdx elemDat. ()" "()" "exTypeTag 2 True" 7, unfolded Let_def]
  have g: "gradsSumToZero 2 2 exGrad"
    by (simp add: gradsSumToZero_def ex_defs eval_nat_numeral All_less_Suc)
  have u: "uniformOn 2 (\<lambda>vertIdx. temperature (exElemDat vertIdx))"
    by (simp add: uniformOn_def ex_defs)
  have g': "gradsSumToZero (dimWorld (exTypeTag 2 True)) (numVertices ?geom)
              (SubControlVolumeFace.grad (subContVolFace ?geom 0))"
    using g by (simp add: exGeometry_def exTypeTag_def)
  have u': "uniformOn (numVertices ?geom) (\<lambda>vertIdx. temperature (exElemDat vertIdx))"
    using u by (simp add: exGeometry_def)
  have law: "\<forall>heatFlux tempGrad. (\<forall>i<dimWorld (exTypeTag 2 True). tempGrad i = 0) \<longrightarrow>
               (\<forall>i<dimWorld (exTypeTag 2 True).
                  matrixHeatFlux (spatialParameters ?problem) heatFlux () exElemDat tempGrad () ?geom 0 i = 0)"
    by (simp add: exProblem_def vscale_def)
  from t g' u' law have flux: "normalMatrixHeatFlux
        (TwoPTwoCNIFluxVariables_ctor (exTypeTag 2 True) (\<lambda>problem element elemGeom scvfIdx elemDat. ())
           7 ?problem () ?geom 0 exElemDat) = 0"
    by blast
  from t have "fst (temperatureGradLoop ?geom 0 exElemDat) 0
      = (\<Sum>vertIdx<numVertices ?geom.
           SubControlVolumeFace.grad (subContVolFace ?geom 0) vertIdx 0 * temperature (exElemDat vertIdx))"
    by blast
  then have "fst (temperatureGradLoop ?geom 0 exElemDat) 0 = 0"
    by (simp add: ex_defs eval_nat_numeral)
  with g u flux show ?thesis by simp
qed

text \<open>
  With 300 K and 310 K at the two vertices the temperature gradient is \<open>(10, 0)\<close>, the
  law returns \<open>(-20, 0)\<close>, and its projection on the normal \<open>(1, 0)\<close> is \<open>-20\<close>.
\<close>

lemma normalMatrixHeatFlux_fourier_example:
  "normalMatrixHeatFlux
     (TwoPTwoCNIFluxVariables_ctor (exTypeTag 2 True) (\<lambda>problem element elemGeom scvfIdx elemDat. ())
        7 (exProblem (vec3 0 (- 10) 0) 3) () (exGeometry (vec3 1 0 0)) 0
        (\<lambda>idx. (exVolVars 1 1)\<lparr>temperature := if idx = 0 then 300 else 310\<rparr>)) = - 20"
  by (simp add: ctor_normalMatrixHeatFlux temperatureGradLoop_fst vdot_def vscale_def ex_defs
        eval_nat_numeral)

text \<open>
  C8. Constructing the non-isothermal flux variables leaves the parent's sub-object as
  the parent's constructor produced it: the body assigns the added member only. (The
  heat-flux law receives the object by constant reference.)
\<close>

theorem C8_extension_keeps_base_fields:
  "ParentType (TwoPTwoCNIFluxVariables_ctor tt parentCtor uninit problem element elemGeom scvfIdx elemDat)
     = parentCtor problem element elemGeom scvfIdx elemDat"
  by (simp add: TwoPTwoCNIFluxVariables_ctor_def Let_def)

text \<open>
  C9. The boundary flux reconstructor looks the intrinsic permeability up at the
  sub-control-volume index the constructor was given, and the porosity, saturation and
  molecular diffusion coefficient in the volume variables of that same index, for every
  phase. The member \<open>scvIdx\<close> is that index; the flux intensity is computed with the tensor
  built from the permeability at that index; the diffusion coefficient is computed from
  the porosity, saturation and molecular diffusion coefficient of the volume variables at
  that index. No other sub-control volume enters: the flux intensity is the same under
  any problem with the same gravity and the same permeability at that index, and the
  diffusion coefficient is the same under any inputs with the same three values at that
  index.
\<close>

theorem C9_lookups_at_own_sub_control_volume:
  assumes "p < NumPhases tt"
  shows "(let r = TwoPTwoCBoundaryVariables_ctor tt uninit problem element elemGeom boundaryFaceIdx elemDat scvIdxArg;
              k = intrinsicPermeability (spatialParameters problem) element elemGeom scvIdxArg;
              vertDat = elemDat scvIdxArg;
              phi = porosity vertDat;
              Sw = saturation vertDat p;
              D = diffCoeff vertDat p
          in scvIdx r = scvIdxArg
             \<and> KmvpNormal r p
                 = - vdot (dim tt) (mv (dim tt) (permeabilityTensor k) (potentialGrad r p))
                       (BoundaryFace.normal (FVElementGeometry.boundaryFace elemGeom boundaryFaceIdx))
             \<and> porousDiffCoeff r p
                 = (if Sw \<le> 0 then Some 0
                    else map_option (\<lambda>tau. phi * Sw * tau * D)
                           (do { q \<leftarrow> fdiv 1 (phi * phi);
                                 pw \<leftarrow> pow (phi * Sw) (7 / 3);
                                 Some (q * pw) }))
             \<and> (intrinsicPermeability (spatialParameters problem') element elemGeom scvIdxArg = k
                  \<and> gravity problem' = gravity problem \<longrightarrow>
                 KmvpNormal
                   (TwoPTwoCBoundaryVariables_ctor tt uninit problem' element elemGeom boundaryFaceIdx elemDat scvIdxArg) p
                 = KmvpNormal r p)
             \<and> (porosity (elemDat' scvIdxArg) = phi
                  \<and> saturation (elemDat' scvIdxArg) p = Sw
                  \<and> diffCoeff (elemDat' scvIdxArg) p = D \<longrightarrow>
                 porousDiffCoeff
                   (TwoPTwoCBoundaryVariables_ctor tt uninit' problem'' element' elemGeom' boundaryFaceIdx' elemDat' scvIdxArg) p
                 = porousDiffCoeff r p))"
proof -
  let ?r = "TwoPTwoCBoundaryVariables_ctor tt uninit problem element elemGeom boundaryFaceIdx elemDat scvIdxArg"
  let ?r' = "TwoPTwoCBoundaryVariables_ctor tt uninit problem' element elemGeom boundaryFaceIdx elemDat scvIdxArg"
  have pot: "potentialGrad ?r' p = potentialGrad ?r p" if "gravity problem' = gravity problem"
    using assms that by (intro ext) (simp add: ctor_potentialGrad ctor_atIP)
  have flux: "KmvpNormal ?r' p = KmvpNormal ?r p"
    if "intrinsicPermeability (spatialParameters problem') element elemGeom scvIdxArg
          = intrinsicPermeability (spatialParameters problem) element elemGeom scvIdxArg"
      and "gravity problem' = gravity problem"
    using assms that(1) pot [OF that(2)] by (simp add: ctor_KmvpNormal)
  show ?thesis
    unfolding Let_def using assms flux
    by (simp add: ctor_frame ctor_KmvpNormal [symmetric] ctor_porousDiffCoeff)
qed

text \<open>
  The two-vertex element with gravity \<open>(0, -10)\<close> and normal \<open>(0, -1)\<close>, under a problem
  whose permeability is 3 at sub-control volume 0 and 99 at the others: constructed for
  sub-control volume 0 the flux intensity of the liquid phase is 30, for sub-control volume
  1 it is 990. The diffusion coefficient of the liquid phase is 2 at porosity 1,
  whatever the other vertex holds.
\<close>

theorem C9_witness:
  "(0::nat) < NumPhases (exTypeTag 2 True)
   \<and> scvIdx
        (TwoPTwoCBoundaryVariables_ctor (exTypeTag 2 True) exUninit (exProblem (vec3 0 (- 10) 0) 99) ()
           (exGeometry (vec3 0 (- 1) 0)) 0 exElemDat 1) = 1
   \<and> KmvpNormal
        (TwoPTwoCBoundaryVariables_ctor (exTypeTag 2 True) exUninit (exProblem (vec3 0 (- 10) 0) 99) ()
           (exGeometry (vec3 0 (- 1) 0)) 0 exElemDat 0) 0 = 30
   \<and> KmvpNormal
        (TwoPTwoCBoundaryVariables_ctor (exTypeTag 2 True) exUninit (exProblem (vec3 0 (- 10) 0) 99) ()
           (exGeometry (vec3 0 (- 1) 0)) 0 exElemDat 1) 0 = 990
   \<and> KmvpNormal
        (TwoPTwoCBoundaryVariables_ctor (exTypeTag 2 True) exUninit (exProblem (vec3 0 (- 10) 0) 3) ()
           (exGeometry (vec3 0 (- 1) 0)) 0 exElemDat 0) 0
      = KmvpNormal
        (TwoPTwoCBoundaryVariables_ctor (exTypeTag 2 True) exUninit (exProblem (vec3 0 (- 10) 0) 99) ()
           (exGeometry (vec3 0 (- 1) 0)) 0 exElemDat 0) 0
   \<and> porousDiffCoeff
        (TwoPTwoCBoundaryVariables_ctor (exTypeTag 2 True) exUninit (exProblem (vec3 0 (- 10) 0) 99) ()
           (exGeometry (vec3 0 (- 1) 0)) 0 exElemDat 0) 0 = Some 2
   \<and> porousDiffCoeff
        (TwoPTwoCBoundaryVariables_ctor (exTypeTag 2 True) exUninit (exProblem (vec3 0 (- 10) 0) 3) ()
           (exGeometry (vec3 1 0 0)) 1 (\<lambda>idx. if idx = 0 then exVolVars 5 1 else exVolVars 1 (1 / 2)) 0) 0
      = porousDiffCoeff
        (TwoPTwoCBoundaryVariables_ctor (exTypeTag 2 True) exUninit (exProblem (vec3 0 (- 10) 0) 99) ()
           (exGeometry (vec3 0 (- 1) 0)) 0 exElemDat 0) 0"
proof -
  let ?tt = "exTypeTag 2 True"
  let ?geom = "exGeometry (vec3 0 (- 1) 0)"
  let ?problem = "exProblem (vec3 0 (- 10) 0) 99"
  have p: "(0::nat) < NumPhases ?tt"
    by (simp add: ex_defs)
  note at0 = C9_lookups_at_own_sub_control_volume [OF p, of exUninit ?problem "()" ?geom 0 exElemDat 0
      "exProblem (vec3 0 (- 10) 0) 3" "\<lambda>idx. if idx = 0 then exVolVars 5 1 else exVolVars 1 (1 / 2)"
      exUninit "exProblem (vec3 0 (- 10) 0) 3" "()" "exGeometry (vec3 1 0 0)" 1, unfolded Let_def]
  note at1 = C9_lookups_at_own_sub_control_volume [OF p, of exUninit ?problem "()" ?geom 0 exElemDat 1
      ?problem exElemDat exUninit ?problem "()" ?geom 0, unfolded Let_def]
  have pot: "potentialGrad (TwoPTwoCBoundaryVariables_ctor ?tt exUninit ?problem () ?geom 0 exElemDat s) 0
               = vec3 (- 1) 10 0" for s
    by (rule ext) (simp add: ctor_potentialGrad ctor_atIP ex_defs eval_nat_numeral)
  have k: "intrinsicPermeability (spatialParameters ?problem) () ?geom 0 = 3"
    "intrinsicPermeability (spatialParameters ?problem) () ?geom (Suc 0) = 99"
    "intrinsicPermeability (spatialParameters (exProblem (vec3 0 (- 10) 0) 3)) () ?geom 0 = 3"
    "gravity (exProblem (vec3 0 (- 10) 0) 3) = gravity ?problem"
    by (simp_all add: ex_defs)
  have n: "BoundaryFace.normal (FVElementGeometry.boundaryFace ?geom 0) = vec3 0 (- 1) 0" "dim ?tt = 2"
    by (simp_all add: ex_defs)
  from at0 have "KmvpNormal (TwoPTwoCBoundaryVariables_ctor ?tt exUninit ?problem () ?geom 0 exElemDat 0) 0
      = - vdot 2 (mv 2 (permeabilityTensor 3) (vec3 (- 1) 10 0)) (vec3 0 (- 1) 0)"
    by (simp add: pot k n)
  then have "KmvpNormal (TwoPTwoCBoundaryVariables_ctor ?tt exUninit ?problem () ?geom 0 exElemDat 0) 0 = 30"
    by (simp add: vdot_mv_permeabilityTensor vec3_def)
  moreover from at1 have "KmvpNormal (TwoPTwoCBoundaryVariables_ctor ?tt exUninit ?problem () ?geom 0 exElemDat 1) 0
      = - vdot 2 (mv 2 (permeabilityTensor 99) (vec3 (- 1) 10 0)) (vec3 0 (- 1) 0)"
    by (simp add: pot k n)
  then have "KmvpNormal (TwoPTwoCBoundaryVariables_ctor ?tt exUninit ?problem () ?geom 0 exElemDat 1) 0 = 990"
    by (simp add: vdot_mv_permeabilityTensor vec3_def)
  moreover from at1 have "scvIdx (TwoPTwoCBoundaryVariables_ctor ?tt exUninit ?problem () ?geom 0 exElemDat 1) = 1"
    by blast
  moreover from at0 have "KmvpNormal
        (TwoPTwoCBoundaryVariables_ctor ?tt exUninit (exProblem (vec3 0 (- 10) 0) 3) () ?geom 0 exElemDat 0) 0
      = KmvpNormal (TwoPTwoCBoundaryVariables_ctor ?tt exUninit ?problem () ?geom 0 exElemDat 0) 0"
    by (simp add: k)
  moreover from at0 have "porousDiffCoeff
        (TwoPTwoCBoundaryVariables_ctor ?tt exUninit ?problem () ?geom 0 exElemDat 0) 0 = Some 2"
    by (simp add: exElemDat_def exVolVars_def fdiv_def pow_def)
  moreover from at0 have "porousDiffCoeff
        (TwoPTwoCBoundaryVariables_ctor ?tt exUninit (exProblem (vec3 0 (- 10) 0) 3) ()
           (exGeometry (vec3 1 0 0)) 1 (\<lambda>idx. if idx = 0 then exVolVars 5 1 else exVolVars 1 (1 / 2)) 0) 0
      = porousDiffCoeff (TwoPTwoCBoundaryVariables_ctor ?tt exUninit ?problem () ?geom 0 exElemDat 0) 0"
    by (simp add: exElemDat_def exVolVars_def)
  ultimately show ?thesis
    using p by simp
qed

text \<open>
  C10. The permeability tensor built from the scalar \<open>k\<close> holds \<open>k\<close> at \<open>(0, 0)\<close> and
  \<open>(1, 1)\<close> and zero elsewhere; so on a grid of dimension two or more the flux intensity
  of every phase is \<open>-k\<close> times the sum of the products of the first two components of the
  potential gradient and the face normal, and a third component contributes nothing.
\<close>

theorem C10_permeability_tensor_two_diagonal_entries:
  "(\<forall>i j. permeabilityTensor k i j = (if (i = 0 \<and> j = 0) \<or> (i = 1 \<and> j = 1) then k else 0))
   \<and> (2 \<le> dim tt \<and> p < NumPhases tt \<longrightarrow>
       (let r = TwoPTwoCBoundaryVariables_ctor tt uninit problem element elemGeom boundaryFaceIdx elemDat scvIdxArg;
            kk = intrinsicPermeability (spatialParameters problem) element elemGeom scvIdxArg;
            faceNormal = BoundaryFace.normal (FVElementGeometry.boundaryFace elemGeom boundaryFaceIdx)
        in KmvpNormal r p
             = - kk * (potentialGrad r p 0 * faceNormal 0 + potentialGrad r p 1 * faceNormal 1)))"
proof -
  have "\<And>i j. permeabilityTensor k i j = (if (i = 0 \<and> j = 0) \<or> (i = 1 \<and> j = 1) then k else 0)"
    by (auto simp: permeabilityTensor_entry)
  then show ?thesis
    by (simp add: Let_def ctor_KmvpNormal vdot_mv_permeabilityTensor)
qed

text \<open>
  In three dimensions, with potential gradient \<open>(0, 10, -5)\<close>, normal \<open>(0, -1, 1)\<close> and
  \<open>k = 3\<close>, the flux intensity is 30: the third components do not enter.
\<close>

theorem C10_witness:
  "permeabilityTensor 3 2 2 = 0
   \<and> 2 \<le> dim (exTypeTag 3 True) \<and> (0::nat) < NumPhases (exTypeTag 3 True)
   \<and> potentialGrad
        (TwoPTwoCBoundaryVariables_ctor (exTypeTag 3 True) exUninit (exProblem (vec3 0 (- 10) 5) 3) ()
           (exGeometry (vec3 0 (- 1) 1)) 0 exUniformDat 0) 0 2 = - 5
   \<and> KmvpNormal
        (TwoPTwoCBoundaryVariables_ctor (exTypeTag 3 True) exUninit (exProblem (vec3 0 (- 10) 5) 3) ()
           (exGeometry (vec3 0 (- 1) 1)) 0 exUniformDat 0) 0 = 30"
  using C10_permeability_tensor_two_diagonal_entries [of 3 "exTypeTag 3 True" 0 exUninit
      "exProblem (vec3 0 (- 10) 5) 3" "()" "exGeometry (vec3 0 (- 1) 1)" 0 exUniformDat 0]
  by (simp add: Let_def ctor_potentialGrad ctor_atIP ex_defs eval_nat_numeral)

end
